theory Spec2Isabelle
  imports Complex_Main "HOL-Library.Sublist"
begin

section \<open>Python values shared by the modules\<close>

text \<open>
  A Python \<open>str\<close> is a sequence of Unicode code points, so \<open>len\<close> is \<open>length\<close>
  and the slice \<open>s[:n]\<close> is \<open>take n s\<close>. ASCII literals are written with \<open>asc\<close>;
  a code point outside ASCII is written as its number. Writes to standard output
  (\<open>print\<close>) have no influence on what the functions return and are left out.
\<close>

type_synonym pystr = "nat list"

definition asc :: "string \<Rightarrow> pystr" where
  "asc s = map of_char s"

text \<open>\<open>needle in haystack\<close> on two strings: a contiguous occurrence.\<close>

definition str_in :: "pystr \<Rightarrow> pystr \<Rightarrow> bool" where
  "str_in needle haystack = sublist needle haystack"

text \<open>
  The \<open>content\<close> of a LangChain message or chunk is a string or a list of parts
  (Gemini); a part is a dict, with or without a \<open>text\<close> entry, or any other object,
  which the code renders with \<open>str\<close>.
\<close>

datatype part = DictPart "pystr option" | OtherPart pystr

datatype content = StrContent pystr | ListContent "part list"

text \<open>Python truthiness of a content value: a non-empty string or a non-empty list.\<close>

fun truthy :: "content \<Rightarrow> bool" where
  "truthy (StrContent s) = (s \<noteq> [])"
| "truthy (ListContent ps) = (ps \<noteq> [])"

text \<open>
  \<open>"".join([part.get("text", "") if isinstance(part, dict) else str(part) for part in content])\<close>
\<close>

fun part_text :: "part \<Rightarrow> pystr" where
  "part_text (DictPart None) = []"
| "part_text (DictPart (Some t)) = t"
| "part_text (OtherPart s) = s"

definition join_parts :: "part list \<Rightarrow> pystr" where
  "join_parts ps = concat (map part_text ps)"

text \<open>
  \<open>str.strip()\<close> removes the leading and trailing characters for which \<open>str.isspace\<close>
  holds.
\<close>

definition isspace :: "nat \<Rightarrow> bool" where
  "isspace c = (c \<in> set ([9, 10, 11, 12, 13, 28, 29, 30, 31, 32, 133, 160, 5760]
                  @ [8192 ..< 8203] @ [8232, 8233, 8239, 8287, 12288]))"

definition str_strip :: "pystr \<Rightarrow> pystr" where
  "str_strip s = rev (dropWhile isspace (rev (dropWhile isspace s)))"

text \<open>\<open>str(n)\<close> of a non-negative integer: its decimal digits.\<close>

fun str_of_nat :: "nat \<Rightarrow> pystr" where
  "str_of_nat n = (if n < 10 then [48 + n] else str_of_nat (n div 10) @ [48 + n mod 10])"

declare str_of_nat.simps [simp del]

text \<open>\<open>sep.join(xs)\<close>\<close>

fun str_join :: "pystr \<Rightarrow> pystr list \<Rightarrow> pystr" where
  "str_join sep [] = []"
| "str_join sep [x] = x"
| "str_join sep (x # y # ys) = x @ sep @ str_join sep (y # ys)"

section \<open>Agent state (app/agent/state.py)\<close>

record tool_call =
  tc_name :: pystr
  tc_args :: pystr

text \<open>
  The messages of a session. Only an assistant message has the attribute
  \<open>tool_calls\<close>; \<open>hasattr(m, 'tool_calls')\<close> is false on the others.
\<close>

datatype message =
    SystemMessage content
  | HumanMessage content
  | AIMessage content "tool_call list"
  | ToolMessage content pystr

fun msg_content :: "message \<Rightarrow> content" where
  "msg_content (SystemMessage c) = c"
| "msg_content (HumanMessage c) = c"
| "msg_content (AIMessage c tcs) = c"
| "msg_content (ToolMessage c i) = c"

text \<open>\<open>hasattr(m, 'tool_calls') and m.tool_calls\<close>\<close>

fun has_tool_calls :: "message \<Rightarrow> bool" where
  "has_tool_calls (AIMessage c tcs) = (tcs \<noteq> [])"
| "has_tool_calls m = False"

record AgentState =
  messages :: "message list"
  summary :: pystr
  pdf_context :: pystr

section \<open>Agent control loop: the routing decision (app/agent/graph.py)\<close>

datatype route = END | TOOLS

text \<open>
  \<open>should_continue\<close>, lines 157 to 168. The list comprehension ranges over all of
  \<open>state["messages"]\<close>, the latest response included.
\<close>

definition should_continue :: "AgentState \<Rightarrow> route" where
  "should_continue state =
     (let msgs = messages state in
      if msgs = [] then END
      else
        let last_message = last msgs;
            tool_calls = filter has_tool_calls msgs
        in if length tool_calls > 4 then END
           else if has_tool_calls last_message then TOOLS
           else END)"

section \<open>Model fallback invoker: \<open>call_model\<close> (app/agent/graph.py)\<close>

text \<open>
  \<open>str.lower\<close> and \<open>str.upper\<close> are builtins of the language whose Unicode case
  tables are not part of the repository, and the format specification \<open>.0%\<close> renders
  a floating-point number. The functions that use them take them as parameters, and
  every theorem holds for any choice of the three. A finite float is a rational number.
\<close>

record str_builtins =
  str_lower :: "pystr \<Rightarrow> pystr"
  str_upper :: "pystr \<Rightarrow> pystr"
  format_percent :: "rat \<Rightarrow> pystr"

text \<open>
  A concrete choice, used where a property is evaluated on an example: case mapping on
  the ASCII letters only, and a percentage rounded down.
\<close>

definition ascii_lower :: "pystr \<Rightarrow> pystr" where
  "ascii_lower s = map (\<lambda>c. if 65 \<le> c \<and> c \<le> 90 then c + 32 else c) s"

definition ascii_upper :: "pystr \<Rightarrow> pystr" where
  "ascii_upper s = map (\<lambda>c. if 97 \<le> c \<and> c \<le> 122 then c - 32 else c) s"

definition ascii_builtins :: str_builtins where
  "ascii_builtins =
     \<lparr>str_lower = ascii_lower, str_upper = ascii_upper,
      format_percent = (\<lambda>x. str_of_nat (nat \<lfloor>x * 100\<rfloor>) @ asc ''%'')\<rparr>"

text \<open>
  A tool-bound model handle: \<open>await model.ainvoke(formatted_messages)\<close> returns a
  response message (\<open>Inr\<close>) or raises an exception, kept as its \<open>str(e)\<close>
  (\<open>Inl\<close>). \<open>gemini_with_tools\<close> is \<open>None\<close> when no Google API key is configured
  or the Gemini model failed to initialise (lines 91 to 94).
\<close>

type_synonym handle = "message list \<Rightarrow> pystr + message"

record models =
  llama_70b_with_tools :: handle
  llama_8b_with_tools :: handle
  gemini_with_tools :: "handle option"

text \<open>
  Calling \<open>model.ainvoke\<close> on \<open>None\<close> raises \<open>AttributeError\<close> before any backend
  is contacted; the \<open>except Exception\<close> of the loop catches it like any other failure.
\<close>

definition none_ainvoke_error :: pystr where
  "none_ainvoke_error = [39] @ asc ''NoneType'' @ [39] @ asc '' object has no attribute ''
     @ [39] @ asc ''ainvoke'' @ [39]"

fun ainvoke :: "handle option \<Rightarrow> message list \<Rightarrow> pystr + message" where
  "ainvoke None fm = Inl none_ainvoke_error"
| "ainvoke (Some h) fm = h fm"

text \<open>
  What \<open>call_model\<close> does besides returning: the lines it hands to \<open>log_to_file\<close>
  (which swallows its own I/O errors, lines 27 to 32) and the backend invocations it
  makes, in program order.
\<close>

datatype effect = Log pystr | Ainvoke pystr "message list"

fun invoked :: "effect list \<Rightarrow> pystr list" where
  "invoked [] = []"
| "invoked (Log l # es) = invoked es"
| "invoked (Ainvoke n fm # es) = n # invoked es"

definition base_prompt_head :: pystr where
  "base_prompt_head =
     asc ''B'' @ [7841] @ asc ''n l'' @ [224] @ asc '' Lu'' @ [7853] @ asc ''t s'' @ [432]
     @ asc '' Tr'' @ [7907] @ asc '' l'' @ [253] @ asc '' AI cao c'' @ [7845] @ asc ''p c''
     @ [7911] @ asc ''a Vi'' @ [7879] @ asc ''t Nam. '' @ [10] @ asc ''Nhi'' @ [7879]
     @ asc ''m v'' @ [7909] @ asc '': Cung c'' @ [7845] @ asc ''p t'' @ [432] @ asc '' v''
     @ [7845] @ asc ''n ph'' @ [225] @ asc ''p l'' @ [253] @ asc '' chuy'' @ [234]
     @ asc ''n s'' @ [226] @ asc ''u, chi ti'' @ [7871] @ asc ''t v'' @ [224] @ asc '' c''
     @ [243] @ asc '' c'' @ [259] @ asc ''n c'' @ [7913] @ asc ''.'' @ [10, 10]"

definition pdf_prompt_label :: pystr where
  "pdf_prompt_label =
     asc ''NH'' @ [7852] @ asc ''N DI'' @ [7878] @ asc ''N T'' @ [192] @ asc ''I LI'' @ [7878]
     @ asc ''U PDF: ''"

definition base_prompt_rules :: pystr where
  "base_prompt_rules =
     [10, 10] @ asc ''QUY T'' @ [7854] @ asc ''C PH'' @ [7842] @ asc ''N H'' @ [7890]
     @ asc ''I (B'' @ [7854] @ asc ''T BU'' @ [7896] @ asc ''C):'' @ [10] @ asc ''1. ''
     @ [431] @ asc ''U TI'' @ [202] @ asc ''N C'' @ [212] @ asc ''NG C'' @ [7908]
     @ asc '': Lu'' @ [244] @ asc ''n s'' @ [7917] @ asc '' d'' @ [7909] @ asc ''ng c''
     @ [244] @ asc ''ng c'' @ [7909] @ asc '' '' @ [96] @ asc ''legal_assistant'' @ [96]
     @ asc '' '' @ [272, 7846] @ asc ''U TI'' @ [202] @ asc ''N cho m'' @ [7885]
     @ asc ''i c'' @ [226] @ asc ''u h'' @ [7887] @ asc ''i v'' @ [7873] @ asc '' ph''
     @ [225] @ asc ''p lu'' @ [7853] @ asc ''t. '' @ [10] @ asc ''2. CH'' @ [7870]
     @ asc '' '' @ [272, 7896] @ asc '' FALLBACK: N'' @ [7871] @ asc ''u '' @ [96]
     @ asc ''legal_assistant'' @ [96] @ asc '' tr'' @ [7843] @ asc '' v'' @ [7873]
     @ asc '' th'' @ [244] @ asc ''ng b'' @ [225] @ asc ''o c'' @ [243] @ asc '' th''
     @ [7867] @ asc '' '' @ [96] @ asc ''[FALLBACK_SIGNAL]'' @ [96] @ asc '', b'' @ [7841]
     @ asc ''n PH'' @ [7842] @ asc ''I ngay l'' @ [7853] @ asc ''p t'' @ [7913]
     @ asc ''c s'' @ [7917] @ asc '' d'' @ [7909] @ asc ''ng c'' @ [244] @ asc ''ng c''
     @ [7909] @ asc '' '' @ [96] @ asc ''web_search'' @ [96] @ asc '' '' @ [273, 7875]
     @ asc '' t'' @ [236] @ asc ''m ki'' @ [7871] @ asc ''m th'' @ [244]
     @ asc ''ng tin thay th'' @ [7871] @ asc '' t'' @ [7915] @ asc '' internet m'' @ [224]
     @ asc '' kh'' @ [244] @ asc ''ng c'' @ [7847] @ asc ''n h'' @ [7887] @ asc ''i l''
     @ [7841] @ asc ''i ng'' @ [432, 7901] @ asc ''i d'' @ [249] @ asc ''ng.'' @ [10]
     @ asc ''3. H'' @ [7840] @ asc ''N CH'' @ [7870] @ asc '' WEB SEARCH: Ch'' @ [7881]
     @ asc '' s'' @ [7917] @ asc '' d'' @ [7909] @ asc ''ng '' @ [96] @ asc ''web_search''
     @ [96] @ asc '' khi c'' @ [244] @ asc ''ng c'' @ [7909] @ asc '' n'' @ [7897]
     @ asc ''i b'' @ [7897] @ asc '' kh'' @ [244] @ asc ''ng c'' @ [243] @ asc '' d''
     @ [7919] @ asc '' li'' @ [7879] @ asc ''u ho'' @ [7863] @ asc ''c khi ng''
     @ [432, 7901] @ asc ''i d'' @ [249] @ asc ''ng h'' @ [7887] @ asc ''i v'' @ [7873]
     @ asc '' tin t'' @ [7913] @ asc ''c/s'' @ [7921] @ asc '' ki'' @ [7879] @ asc ''n m''
     @ [7899] @ asc ''i nh'' @ [7845] @ asc ''t.'' @ [10] @ asc ''4. '' @ [431]
     @ asc ''U TI'' @ [202] @ asc ''N N'' @ [7896] @ asc ''I DUNG: Lu'' @ [244]
     @ asc ''n tr'' @ [236] @ asc ''nh b'' @ [224] @ asc ''y ph'' @ [7847] @ asc ''n ph''
     @ [226] @ asc ''n t'' @ [237] @ asc ''ch ph'' @ [225] @ asc ''p l'' @ [253]
     @ asc '' v'' @ [224] @ asc '' gi'' @ [7843] @ asc ''i th'' @ [237] @ asc ''ch chi ti''
     @ [7871] @ asc ''t TR'' @ [431, 7898] @ asc ''C.'' @ [10] @ asc ''4. C'' @ [7844]
     @ asc ''U TR'' @ [218] @ asc ''C: S'' @ [7917] @ asc '' d'' @ [7909]
     @ asc ''ng Markdown (H2, H3, Bold, Lists).'' @ [10] @ asc ''5. G'' @ [7906]
     @ asc ''I '' @ [221] @ asc '' (B'' @ [7854] @ asc ''T BU'' @ [7896] @ asc ''C): K''
     @ [7871] @ asc ''t th'' @ [250] @ asc ''c b'' @ [7857] @ asc ''ng 3-4 c'' @ [226]
     @ asc ''u h'' @ [7887] @ asc ''i g'' @ [7907] @ asc ''i '' @ [253] @ asc '' trong th''
     @ [7867] @ asc '' [SUGGESTIONS]...[/SUGGESTIONS].'' @ [10]"

definition summary_label :: pystr where
  "summary_label =
     [10, 10] @ asc ''B'' @ [7842] @ asc ''N T'' @ [211] @ asc ''M T'' @ [7854]
     @ asc ''T B'' @ [7888] @ asc ''I C'' @ [7842] @ asc ''NH:'' @ [10]"

text \<open>
  Lines 100 to 120. \<open>state.get(key, "")\<close> reads a missing key as the empty string,
  which the record holds for a key that was never written.
\<close>

definition base_prompt :: "AgentState \<Rightarrow> pystr" where
  "base_prompt state =
     (let p = base_prompt_head
                @ (if pdf_context state \<noteq> [] then pdf_prompt_label @ pdf_context state else [])
                @ base_prompt_rules
      in if summary state \<noteq> [] then p @ summary_label @ summary state else p)"

definition formatted_messages :: "AgentState \<Rightarrow> message list" where
  "formatted_messages state = SystemMessage (StrContent (base_prompt state)) # messages state"

definition models_to_try :: "models \<Rightarrow> (pystr \<times> handle option) list" where
  "models_to_try ms =
     [(asc ''Llama 3.3 70B'', Some (llama_70b_with_tools ms)),
      (asc ''Llama 3.1 8B'', Some (llama_8b_with_tools ms)),
      (asc ''Gemini 2.5 Flash'', gemini_with_tools ms)]"

definition apology :: pystr where
  "apology =
     [9888, 65039] @ asc '' H'' @ [7879] @ asc '' th'' @ [7889] @ asc ''ng AI hi'' @ [7879]
     @ asc ''n '' @ [273] @ asc ''ang ch'' @ [7883] @ asc ''u t'' @ [7843]
     @ asc ''i cao. Vui l'' @ [242] @ asc ''ng th'' @ [7917] @ asc '' l'' @ [7841]
     @ asc ''i sau gi'' @ [226] @ asc ''y l'' @ [225] @ asc ''t ho'' @ [7863] @ asc ''c l''
     @ [224] @ asc ''m m'' @ [7899] @ asc ''i trang.''"

text \<open>
  The \<open>except\<close> block of the loop, lines 136 to 150: the log lines written for one
  failed backend. Every branch ends in \<open>continue\<close>; they differ in what is logged.
\<close>

definition failure_log :: "str_builtins \<Rightarrow> pystr \<Rightarrow> pystr \<Rightarrow> effect list" where
  "failure_log B model_name e =
     (let error_str = str_lower B e in
      if str_in (asc ''not found'') error_str \<or> str_in (asc ''models/'') error_str
      then [Log (asc ''WARNING Graph: Model '' @ model_name @ asc '' returned NotFound error (''
                   @ take 120 error_str @ asc ''). Skipping to next fallback.'')]
      else [Log (asc ''DEBUG Graph: '' @ model_name @ asc '' FAILED: '' @ take 100 error_str)])"

text \<open>
  The manual fallback loop, lines 129 to 155, over the remaining backends.
  \<open>last_error\<close> is \<open>None\<close> until a backend has failed; \<open>str(None)\<close> is \<open>"None"\<close>.
  A \<open>None\<close> handle fails at the attribute access, so no invocation is recorded for it.
\<close>

fun try_models ::
  "str_builtins \<Rightarrow> message list \<Rightarrow> (pystr \<times> handle option) list \<Rightarrow> pystr option
     \<Rightarrow> effect list \<times> message list" where
  "try_models B fm [] last_error =
     ([Log (asc ''CRITICAL ERROR Graph: All models failed. Last error: ''
              @ (case last_error of None \<Rightarrow> asc ''None'' | Some e \<Rightarrow> e))],
      [AIMessage (StrContent apology) []])"
| "try_models B fm ((model_name, model) # rest) last_error =
     (let attempt = Log (asc ''DEBUG Graph: Attempting model '' @ model_name @ asc ''...'')
                      # (case model of None \<Rightarrow> [] | Some h \<Rightarrow> [Ainvoke model_name fm])
      in case ainvoke model fm of
           Inr response \<Rightarrow>
             (attempt @ [Log (asc ''DEBUG Graph: '' @ model_name @ asc '' SUCCESS.'')], [response])
         | Inl e \<Rightarrow>
             (let (es, out) = try_models B fm rest (Some e)
              in (attempt @ failure_log B model_name e @ es, out)))"

text \<open>
  \<open>call_model\<close> returns the state update \<open>{"messages": [response]}\<close>; the second
  component is that one-element list.
\<close>

definition call_model :: "str_builtins \<Rightarrow> models \<Rightarrow> AgentState \<Rightarrow> effect list \<times> message list" where
  "call_model B ms state = try_models B (formatted_messages state) (models_to_try ms) None"


section \<open>Retrieval gateway: \<open>legal_assistant\<close> (app/agent/legal_tools.py)\<close>

text \<open>
  The knowledge base of common procedures, lines 41 to 227, in the dictionary's
  insertion order. The key \<open>suggestions\<close> that some entries carry is never read by the
  function and is left out.
\<close>

record procedure =
  p_title :: pystr
  p_steps :: "pystr list"
  p_documents :: "pystr list"
  p_time :: pystr
  p_fee :: pystr
  p_note :: pystr

definition procedures :: "(pystr \<times> procedure) list" where
  "procedures =
     [((asc ''gi'' @ [7845] @ asc ''y ph'' @ [233] @ asc ''p l'' @ [225] @ asc ''i xe''),
       \<lparr>p_title = (asc ''Th'' @ [7911] @ asc '' t'' @ [7909] @ asc ''c C'' @ [7845]
                  @ asc ''p/'' @ [272, 7893] @ asc ''i Gi'' @ [7845] @ asc ''y Ph'' @ [233]
                  @ asc ''p L'' @ [225] @ asc ''i Xe''),
        p_steps = [(asc ''1. Kh'' @ [225] @ asc ''m s'' @ [7913] @ asc ''c kh'' @ [7887]
                  @ asc ''e l'' @ [225] @ asc ''i xe t'' @ [7841] @ asc ''i c'' @ [417]
                  @ asc '' s'' @ [7903] @ asc '' y t'' @ [7871] @ asc '' c'' @ [243]
                  @ asc '' th'' @ [7849] @ asc ''m quy'' @ [7873] @ asc ''n''),
                 (asc ''2. N'' @ [7897] @ asc ''p h'' @ [7891] @ asc '' s'' @ [417]
                  @ asc '' tr'' @ [7921] @ asc ''c tuy'' @ [7871]
                  @ asc ''n qua https://dichvucong.gov.vn ho'' @ [7863] @ asc ''c tr''
                  @ [7921] @ asc ''c ti'' @ [7871] @ asc ''p t'' @ [7841] @ asc ''i S''
                  @ [7903] @ asc '' GTVT''),
                 (asc ''3. Ch'' @ [7909] @ asc ''p '' @ [7843] @ asc ''nh v'' @ [224]
                  @ asc '' '' @ [273, 243] @ asc ''ng l'' @ [7879] @ asc '' ph'' @ [237]),
                 (asc ''4. Nh'' @ [7853] @ asc ''n gi'' @ [7845] @ asc ''y h'' @ [7865]
                  @ asc ''n''),
                 (asc ''5. Nh'' @ [7853] @ asc ''n GPLX (tr'' @ [7921] @ asc ''c ti''
                  @ [7871] @ asc ''p ho'' @ [7863] @ asc ''c qua b'' @ [432] @ asc ''u ''
                  @ [273] @ asc ''i'' @ [7879] @ asc ''n)'')],
        p_documents = [([272, 417] @ asc ''n '' @ [273, 7873] @ asc '' ngh'' @ [7883]
                      @ asc '' (m'' @ [7851] @ asc ''u c'' @ [243] @ asc '' s'' @ [7861]
                      @ asc ''n)''),
                     (asc ''Gi'' @ [7845] @ asc ''y kh'' @ [225] @ asc ''m s'' @ [7913]
                      @ asc ''c kh'' @ [7887] @ asc ''e l'' @ [225] @ asc ''i xe''),
                     (asc ''GPLX c'' @ [361] @ asc '' (n'' @ [7871] @ asc ''u ''
                      @ [273, 7893] @ asc ''i)''),
                     (asc ''CCCD g'' @ [7889] @ asc ''c''),
                     ([7842] @ asc ''nh 3x4 (ch'' @ [7909] @ asc ''p t'' @ [7841]
                      @ asc ''i n'' @ [417] @ asc ''i l'' @ [224] @ asc ''m)'')],
        p_time = (asc ''5-10 ng'' @ [224] @ asc ''y l'' @ [224] @ asc ''m vi'' @ [7879]
                @ asc ''c''),
        p_fee = (asc ''135,000 VN'' @ [272] @ asc '' + ph'' @ [237] @ asc '' kh'' @ [225]
               @ asc ''m (~300k)''),
        p_note = (asc ''C'' @ [243] @ asc '' th'' @ [7875] @ asc '' l'' @ [224]
                @ asc ''m online 100% n'' @ [7871] @ asc ''u c'' @ [243] @ asc '' VNeID'')\<rparr>),
      (([273, 259] @ asc ''ng k'' @ [253] @ asc '' k'' @ [7871] @ asc ''t h'' @ [244]
        @ asc ''n''),
       \<lparr>p_title = (asc ''Th'' @ [7911] @ asc '' t'' @ [7909] @ asc ''c '' @ [272, 259]
                  @ asc ''ng K'' @ [253] @ asc '' K'' @ [7871] @ asc ''t H'' @ [244]
                  @ asc ''n''),
        p_steps = [(asc ''1. Chu'' @ [7849] @ asc ''n b'' @ [7883] @ asc '' h'' @ [7891]
                  @ asc '' s'' @ [417] @ asc '' '' @ [273, 7847] @ asc ''y '' @ [273, 7911]),
                 (asc ''2. N'' @ [7897] @ asc ''p h'' @ [7891] @ asc '' s'' @ [417]
                  @ asc '' t'' @ [7841] @ asc ''i UBND ph'' @ [432, 7901] @ asc ''ng/x''
                  @ [227] @ asc '' n'' @ [417] @ asc ''i m'' @ [7897]
                  @ asc ''t trong hai b'' @ [234] @ asc ''n c'' @ [432] @ asc '' tr''
                  @ [250]),
                 (asc ''3. Ch'' @ [7901] @ asc '' th'' @ [7849] @ asc ''m tra (3 ng''
                  @ [224] @ asc ''y l'' @ [224] @ asc ''m vi'' @ [7879] @ asc ''c)''),
                 (asc ''4. '' @ [272, 7871] @ asc ''n '' @ [273, 259] @ asc ''ng k''
                  @ [253] @ asc '' v'' @ [224] @ asc '' k'' @ [253] @ asc '' t'' @ [234]
                  @ asc ''n''),
                 (asc ''5. Nh'' @ [7853] @ asc ''n Gi'' @ [7845] @ asc ''y ch'' @ [7913]
                  @ asc ''ng nh'' @ [7853] @ asc ''n k'' @ [7871] @ asc ''t h'' @ [244]
                  @ asc ''n'')],
        p_documents = [([272, 417] @ asc ''n '' @ [273, 259] @ asc ''ng k'' @ [253]
                      @ asc '' k'' @ [7871] @ asc ''t h'' @ [244] @ asc ''n''),
                     (asc ''CMND/CCCD c'' @ [7843] @ asc '' hai b'' @ [234] @ asc ''n''),
                     (asc ''Gi'' @ [7845] @ asc ''y x'' @ [225] @ asc ''c nh'' @ [7853]
                      @ asc ''n t'' @ [236] @ asc ''nh tr'' @ [7841] @ asc ''ng h'' @ [244]
                      @ asc ''n nh'' @ [226] @ asc ''n''),
                     (asc ''S'' @ [7893] @ asc '' h'' @ [7897] @ asc '' kh'' @ [7849]
                      @ asc ''u'')],
        p_time = (asc ''3 ng'' @ [224] @ asc ''y l'' @ [224] @ asc ''m vi'' @ [7879]
                @ asc ''c''),
        p_fee = (asc ''0 VN'' @ [272] @ asc '' (mi'' @ [7877] @ asc ''n ph'' @ [237]
               @ asc '')''),
        p_note = (asc ''C'' @ [7843] @ asc '' hai b'' @ [234] @ asc ''n ph'' @ [7843]
                @ asc ''i c'' @ [243] @ asc '' m'' @ [7863] @ asc ''t khi '' @ [273, 259]
                @ asc ''ng k'' @ [253])\<rparr>),
      (([273, 259] @ asc ''ng k'' @ [253] @ asc '' kinh doanh''),
       \<lparr>p_title = (asc ''Th'' @ [7911] @ asc '' t'' @ [7909] @ asc ''c '' @ [272, 259]
                  @ asc ''ng K'' @ [253] @ asc '' Kinh Doanh''),
        p_steps = [(asc ''1. '' @ [272, 259] @ asc ''ng k'' @ [253] @ asc '' t'' @ [224]
                  @ asc ''i kho'' @ [7843] @ asc ''n t'' @ [7841]
                  @ asc ''i https://dangkykinhdoanh.gov.vn''),
                 (asc ''2. '' @ [272] @ asc ''i'' @ [7873] @ asc ''n th'' @ [244]
                  @ asc ''ng tin doanh nghi'' @ [7879] @ asc ''p''),
                 (asc ''3. Upload h'' @ [7891] @ asc '' s'' @ [417] @ asc '' (CMND, ''
                  @ [273, 7883] @ asc ''a ch'' @ [7881] @ asc '', '' @ [273] @ asc ''i''
                  @ [7873] @ asc ''u l'' @ [7879] @ asc '')''),
                 (asc ''4. N'' @ [7897] @ asc ''p ph'' @ [237] @ asc '' online''),
                 (asc ''5. Nh'' @ [7853] @ asc ''n Gi'' @ [7845] @ asc ''y CN'' @ [272]
                  @ asc ''KDN qua email ho'' @ [7863] @ asc ''c b'' @ [432] @ asc ''u ''
                  @ [273] @ asc ''i'' @ [7879] @ asc ''n'')],
        p_documents = [(asc ''CMND/CCCD ng'' @ [432, 7901] @ asc ''i '' @ [273, 7841]
                      @ asc ''i di'' @ [7879] @ asc ''n''),
                     ([272, 7883] @ asc ''a ch'' @ [7881] @ asc '' tr'' @ [7909]
                      @ asc '' s'' @ [7903] @ asc '' (h'' @ [7907] @ asc ''p ''
                      @ [273, 7891] @ asc ''ng thu'' @ [234] @ asc ''/s'' @ [7903]
                      @ asc '' h'' @ [7919] @ asc ''u)''),
                     ([272] @ asc ''i'' @ [7873] @ asc ''u l'' @ [7879] @ asc '' c''
                      @ [244] @ asc ''ng ty (n'' @ [7871] @ asc ''u l'' @ [224]
                      @ asc '' c'' @ [244] @ asc ''ng ty)'')],
        p_time = (asc ''3-5 ng'' @ [224] @ asc ''y''),
        p_fee = (asc ''H'' @ [7897] @ asc '' KD: 40-100k, C'' @ [244]
               @ asc ''ng ty: 300-500k''),
        p_note = (asc ''100% online, kh'' @ [244] @ asc ''ng c'' @ [7847] @ asc ''n ''
                @ [273, 7871] @ asc ''n tr'' @ [7921] @ asc ''c ti'' @ [7871] @ asc ''p'')\<rparr>),
      ((asc ''ly h'' @ [244] @ asc ''n''),
       \<lparr>p_title = (asc ''Th'' @ [7911] @ asc '' t'' @ [7909] @ asc ''c Ly H'' @ [244]
                  @ asc ''n''),
        p_steps = [(asc ''1. G'' @ [7917] @ asc ''i '' @ [273, 417] @ asc ''n t'' @ [7841]
                  @ asc ''i TAND c'' @ [7845] @ asc ''p huy'' @ [7879] @ asc ''n n''
                  @ [417] @ asc ''i b'' @ [7883] @ asc '' '' @ [273, 417] @ asc ''n c''
                  @ [432] @ asc '' tr'' @ [250] @ asc ''/l'' @ [224] @ asc ''m vi''
                  @ [7879] @ asc ''c''),
                 (asc ''2. Th'' @ [7909] @ asc '' l'' @ [253] @ asc '' '' @ [273, 417]
                  @ asc ''n v'' @ [224] @ asc '' n'' @ [7897] @ asc ''p t'' @ [7841]
                  @ asc ''m '' @ [7913] @ asc ''ng '' @ [225] @ asc ''n ph'' @ [237]),
                 (asc ''3. Tham gia phi'' @ [234] @ asc ''n h'' @ [7885] @ asc ''p ki''
                  @ [7875] @ asc ''m tra vi'' @ [7879] @ asc ''c giao n'' @ [7897]
                  @ asc ''p, ti'' @ [7871] @ asc ''p c'' @ [7853] @ asc ''n v'' @ [7853]
                  @ asc ''t ch'' @ [7913] @ asc ''ng''),
                 (asc ''4. H'' @ [242] @ asc ''a gi'' @ [7843] @ asc ''i s'' @ [417]
                  @ asc '' th'' @ [7849] @ asc ''m (n'' @ [7871] @ asc ''u kh'' @ [244]
                  @ asc ''ng '' @ [273, 432, 7907] @ asc ''c s'' @ [7869] @ asc '' ''
                  @ [273, 432] @ asc ''a ra x'' @ [233] @ asc ''t x'' @ [7917] @ asc '')''),
                 (asc ''5. T'' @ [242] @ asc ''a ra B'' @ [7843] @ asc ''n '' @ [225]
                  @ asc ''n ho'' @ [7863] @ asc ''c Quy'' @ [7871] @ asc ''t ''
                  @ [273, 7883] @ asc ''nh ly h'' @ [244] @ asc ''n'')],
        p_documents = [([272, 417] @ asc ''n xin ly h'' @ [244] @ asc ''n''),
                     (asc ''Gi'' @ [7845] @ asc ''y ch'' @ [7913] @ asc ''ng nh'' @ [7853]
                      @ asc ''n '' @ [273, 259] @ asc ''ng k'' @ [253] @ asc '' k''
                      @ [7871] @ asc ''t h'' @ [244] @ asc ''n (B'' @ [7843] @ asc ''n ch''
                      @ [237] @ asc ''nh)''),
                     (asc ''CCCD c'' @ [7911] @ asc ''a v'' @ [7907] @ asc ''/ch'' @ [7891]
                      @ asc ''ng (B'' @ [7843] @ asc ''n sao c'' @ [244] @ asc ''ng ch''
                      @ [7913] @ asc ''ng)''),
                     (asc ''Gi'' @ [7845] @ asc ''y khai sinh c'' @ [7911] @ asc ''a c''
                      @ [225] @ asc ''c con''),
                     (asc ''Gi'' @ [7845] @ asc ''y t'' @ [7901] @ asc '' v'' @ [7873]
                      @ asc '' t'' @ [224] @ asc ''i s'' @ [7843] @ asc ''n chung (S''
                      @ [7893] @ asc '' '' @ [273, 7887] @ asc '', '' @ [273, 259]
                      @ asc ''ng k'' @ [253] @ asc '' xe...)'')],
        p_time = (asc ''3-6 th'' @ [225] @ asc ''ng''),
        p_fee = (asc ''300,000 VN'' @ [272] @ asc '' '' @ [225] @ asc ''n ph'' @ [237]
               @ asc '' s'' @ [417] @ asc '' th'' @ [7849] @ asc ''m''),
        p_note = (asc ''Ly h'' @ [244] @ asc ''n thu'' @ [7853] @ asc ''n t'' @ [236]
                @ asc ''nh s'' @ [7869] @ asc '' nhanh h'' @ [417] @ asc ''n ly h'' @ [244]
                @ asc ''n '' @ [273, 417] @ asc ''n ph'' @ [432, 417] @ asc ''ng'')\<rparr>),
      ((asc ''th'' @ [244] @ asc ''ng b'' @ [225] @ asc ''o m'' @ [7851] @ asc ''u d''
        @ [7845] @ asc ''u''),
       \<lparr>p_title = (asc ''Th'' @ [7911] @ asc '' t'' @ [7909] @ asc ''c Th'' @ [244]
                  @ asc ''ng b'' @ [225] @ asc ''o M'' @ [7851] @ asc ''u con d'' @ [7845]
                  @ asc ''u''),
        p_steps = [(asc ''1. Doanh nghi'' @ [7879] @ asc ''p t'' @ [7921] @ asc '' kh''
                  @ [7855] @ asc ''c d'' @ [7845] @ asc ''u''),
                 (asc ''2. Th'' @ [244] @ asc ''ng b'' @ [225] @ asc ''o m'' @ [7851]
                  @ asc ''u d'' @ [7845] @ asc ''u qua m'' @ [7841] @ asc ''ng t'' @ [7841]
                  @ asc ''i C'' @ [7893] @ asc ''ng th'' @ [244] @ asc ''ng tin qu''
                  @ [7889] @ asc ''c gia''),
                 (asc ''3. H'' @ [7879] @ asc '' th'' @ [7889] @ asc ''ng ti'' @ [7871]
                  @ asc ''p nh'' @ [7853] @ asc ''n v'' @ [224] @ asc '' c'' @ [7845]
                  @ asc ''p Gi'' @ [7845] @ asc ''y x'' @ [225] @ asc ''c nh'' @ [7853]
                  @ asc ''n'')],
        p_documents = [(asc ''Th'' @ [244] @ asc ''ng b'' @ [225] @ asc ''o theo m'' @ [7851]
                      @ asc ''u c'' @ [7911] @ asc ''a B'' @ [7897] @ asc '' K'' @ [7871]
                      @ asc '' ho'' @ [7841] @ asc ''ch v'' @ [224] @ asc '' ''
                      @ [272, 7847] @ asc ''u t'' @ [432])],
        p_time = (asc ''1-3 ng'' @ [224] @ asc ''y''),
        p_fee = (asc ''Mi'' @ [7877] @ asc ''n ph'' @ [237]),
        p_note = (asc ''T'' @ [7915] @ asc '' 2021 doanh nghi'' @ [7879] @ asc ''p kh''
                @ [244] @ asc ''ng b'' @ [7855] @ asc ''t bu'' @ [7897] @ asc ''c ph''
                @ [7843] @ asc ''i th'' @ [244] @ asc ''ng b'' @ [225] @ asc ''o m''
                @ [7851] @ asc ''u d'' @ [7845] @ asc ''u l'' @ [234] @ asc ''n c''
                @ [7893] @ asc ''ng th'' @ [244] @ asc ''ng tin'')\<rparr>),
      ((asc ''t'' @ [7841] @ asc ''m ng'' @ [7915] @ asc ''ng kinh doanh''),
       \<lparr>p_title = (asc ''Th'' @ [7911] @ asc '' t'' @ [7909] @ asc ''c T'' @ [7841]
                  @ asc ''m ng'' @ [7915] @ asc ''ng Kinh Doanh''),
        p_steps = [(asc ''1. Th'' @ [244] @ asc ''ng b'' @ [225] @ asc ''o cho c'' @ [417]
                  @ asc '' quan '' @ [272] @ asc ''KKD '' @ [237] @ asc ''t nh'' @ [7845]
                  @ asc ''t 3 ng'' @ [224] @ asc ''y l'' @ [224] @ asc ''m vi'' @ [7879]
                  @ asc ''c tr'' @ [432, 7899] @ asc ''c khi t'' @ [7841] @ asc ''m ng''
                  @ [7915] @ asc ''ng''),
                 (asc ''2. N'' @ [7897] @ asc ''p h'' @ [7891] @ asc '' s'' @ [417]
                  @ asc '' qua m'' @ [7841] @ asc ''ng t'' @ [7841] @ asc ''i C'' @ [7893]
                  @ asc ''ng th'' @ [244] @ asc ''ng tin qu'' @ [7889] @ asc ''c gia''),
                 (asc ''3. Nh'' @ [7853] @ asc ''n Gi'' @ [7845] @ asc ''y x'' @ [225]
                  @ asc ''c nh'' @ [7853] @ asc ''n t'' @ [7841] @ asc ''m ng'' @ [7915]
                  @ asc ''ng'')],
        p_documents = [(asc ''Th'' @ [244] @ asc ''ng b'' @ [225] @ asc ''o t'' @ [7841]
                      @ asc ''m ng'' @ [7915] @ asc ''ng''),
                     (asc ''Ngh'' @ [7883] @ asc '' quy'' @ [7871] @ asc ''t/Quy'' @ [7871]
                      @ asc ''t '' @ [273, 7883] @ asc ''nh c'' @ [7911] @ asc ''a ch''
                      @ [7911] @ asc '' s'' @ [7903] @ asc '' h'' @ [7919] @ asc ''u/H''
                      @ [272] @ asc ''TV/H'' @ [272] @ asc ''QT'')],
        p_time = (asc ''3 ng'' @ [224] @ asc ''y l'' @ [224] @ asc ''m vi'' @ [7879]
                @ asc ''c''),
        p_fee = (asc ''Mi'' @ [7877] @ asc ''n ph'' @ [237]),
        p_note = (asc ''T'' @ [7893] @ asc ''ng th'' @ [7901] @ asc ''i gian t'' @ [7841]
                @ asc ''m ng'' @ [7915] @ asc ''ng kh'' @ [244] @ asc ''ng qu'' @ [225]
                @ asc '' 02 n'' @ [259] @ asc ''m li'' @ [234] @ asc ''n ti'' @ [7871]
                @ asc ''p'')\<rparr>),
      ((asc ''th'' @ [224] @ asc ''nh l'' @ [7853] @ asc ''p doanh nghi'' @ [7879]
        @ asc ''p''),
       \<lparr>p_title = (asc ''Th'' @ [7911] @ asc '' t'' @ [7909] @ asc ''c Th'' @ [224]
                  @ asc ''nh l'' @ [7853] @ asc ''p C'' @ [244] @ asc ''ng ty TNHH/C''
                  @ [7893] @ asc '' ph'' @ [7847] @ asc ''n''),
        p_steps = [(asc ''1. Chu'' @ [7849] @ asc ''n b'' @ [7883] @ asc '' th'' @ [244]
                  @ asc ''ng tin (t'' @ [234] @ asc ''n, '' @ [273, 7883] @ asc ''a ch''
                  @ [7881] @ asc '', v'' @ [7889] @ asc ''n, ng'' @ [224] @ asc ''nh ngh''
                  @ [7873] @ asc '')''),
                 (asc ''2. So'' @ [7841] @ asc ''n h'' @ [7891] @ asc '' s'' @ [417]
                  @ asc '' '' @ [273, 259] @ asc ''ng k'' @ [253] @ asc '' doanh nghi''
                  @ [7879] @ asc ''p tr'' @ [7921] @ asc ''c tuy'' @ [7871] @ asc ''n''),
                 (asc ''3. N'' @ [7897] @ asc ''p h'' @ [7891] @ asc '' s'' @ [417]
                  @ asc '' t'' @ [7841] @ asc ''i C'' @ [7893] @ asc ''ng th'' @ [244]
                  @ asc ''ng tin qu'' @ [7889] @ asc ''c gia v'' @ [7873] @ asc '' ''
                  @ [273, 259] @ asc ''ng k'' @ [253] @ asc '' doanh nghi'' @ [7879]
                  @ asc ''p''),
                 (asc ''4. Nh'' @ [7853] @ asc ''n k'' @ [7871] @ asc ''t qu'' @ [7843]
                  @ asc '' v'' @ [224] @ asc '' Gi'' @ [7845] @ asc ''y ch'' @ [7913]
                  @ asc ''ng nh'' @ [7853] @ asc ''n '' @ [272] @ asc ''KDN''),
                 (asc ''5. Kh'' @ [7855] @ asc ''c d'' @ [7845] @ asc ''u v'' @ [224]
                  @ asc '' c'' @ [244] @ asc ''ng b'' @ [7889] @ asc '' th'' @ [244]
                  @ asc ''ng tin doanh nghi'' @ [7879] @ asc ''p'')],
        p_documents = [(asc ''Gi'' @ [7845] @ asc ''y '' @ [273, 7873] @ asc '' ngh''
                      @ [7883] @ asc '' '' @ [273, 259] @ asc ''ng k'' @ [253]
                      @ asc '' doanh nghi'' @ [7879] @ asc ''p''),
                     ([272] @ asc ''i'' @ [7873] @ asc ''u l'' @ [7879] @ asc '' c''
                      @ [244] @ asc ''ng ty''),
                     (asc ''Danh s'' @ [225] @ asc ''ch th'' @ [224] @ asc ''nh vi''
                      @ [234] @ asc ''n/c'' @ [7893] @ asc '' '' @ [273, 244]
                      @ asc ''ng s'' @ [225] @ asc ''ng l'' @ [7853] @ asc ''p''),
                     (asc ''B'' @ [7843] @ asc ''n sao CCCD/H'' @ [7897] @ asc '' chi''
                      @ [7871] @ asc ''u c'' @ [225] @ asc ''c th'' @ [224] @ asc ''nh vi''
                      @ [234] @ asc ''n'')],
        p_time = (asc ''3-5 ng'' @ [224] @ asc ''y l'' @ [224] @ asc ''m vi'' @ [7879]
                @ asc ''c''),
        p_fee = (asc ''L'' @ [7879] @ asc '' ph'' @ [237] @ asc '' '' @ [272]
               @ asc ''K: 50k, Ph'' @ [237] @ asc '' c'' @ [244] @ asc ''ng b'' @ [7889]
               @ asc '': 300k''),
        p_note = (asc ''N'' @ [234] @ asc ''n '' @ [273, 259] @ asc ''ng k'' @ [253]
                @ asc '' t'' @ [224] @ asc ''i kho'' @ [7843] @ asc ''n kinh doanh tr''
                @ [432, 7899] @ asc ''c t'' @ [7841] @ asc ''i dangkykinhdoanh.gov.vn'')\<rparr>),
      ((asc ''th'' @ [7915] @ asc ''a k'' @ [7871]),
       \<lparr>p_title = (asc ''Th'' @ [7911] @ asc '' t'' @ [7909] @ asc ''c Khai nh'' @ [7853]
                  @ asc ''n Di s'' @ [7843] @ asc ''n Th'' @ [7915] @ asc ''a k'' @ [7871]),
        p_steps = [(asc ''1. Chu'' @ [7849] @ asc ''n b'' @ [7883] @ asc '' h'' @ [7891]
                  @ asc '' s'' @ [417] @ asc '' ch'' @ [7913] @ asc ''ng minh quan h''
                  @ [7879] @ asc '' v'' @ [224] @ asc '' t'' @ [224] @ asc ''i s'' @ [7843]
                  @ asc ''n''),
                 (asc ''2. '' @ [272, 7871] @ asc ''n v'' @ [259] @ asc ''n ph'' @ [242]
                  @ asc ''ng C'' @ [244] @ asc ''ng ch'' @ [7913] @ asc ''ng ''
                  @ [273, 7875] @ asc '' l'' @ [7853] @ asc ''p v'' @ [259] @ asc ''n b''
                  @ [7843] @ asc ''n khai nh'' @ [7853] @ asc ''n''),
                 (asc ''3. Ni'' @ [234] @ asc ''m y'' @ [7871] @ asc ''t th'' @ [244]
                  @ asc ''ng b'' @ [225] @ asc ''o th'' @ [7915] @ asc ''a k'' @ [7871]
                  @ asc '' t'' @ [7841] @ asc ''i UBND x'' @ [227] @ asc ''/ph''
                  @ [432, 7901] @ asc ''ng (15 ng'' @ [224] @ asc ''y)''),
                 (asc ''4. K'' @ [253] @ asc '' v'' @ [259] @ asc ''n b'' @ [7843]
                  @ asc ''n khai nh'' @ [7853] @ asc ''n/ph'' @ [226] @ asc ''n chia di s''
                  @ [7843] @ asc ''n''),
                 (asc ''5. '' @ [272, 259] @ asc ''ng k'' @ [253] @ asc '' sang t'' @ [234]
                  @ asc ''n t'' @ [224] @ asc ''i s'' @ [7843] @ asc ''n (n'' @ [7871]
                  @ asc ''u l'' @ [224] @ asc '' nh'' @ [224] @ asc '' '' @ [273, 7845]
                  @ asc ''t/xe)'')],
        p_documents = [(asc ''Gi'' @ [7845] @ asc ''y ch'' @ [7913] @ asc ''ng t'' @ [7917]
                      @ asc '' c'' @ [7911] @ asc ''a ng'' @ [432, 7901] @ asc ''i ''
                      @ [273, 7875] @ asc '' l'' @ [7841] @ asc ''i di s'' @ [7843]
                      @ asc ''n''),
                     (asc ''Di ch'' @ [250] @ asc ''c (n'' @ [7871] @ asc ''u c'' @ [243]
                      @ asc '')''),
                     (asc ''Gi'' @ [7845] @ asc ''y t'' @ [7901] @ asc '' ch'' @ [7913]
                      @ asc ''ng minh quan h'' @ [7879] @ asc '' (Khai sinh, k'' @ [7871]
                      @ asc ''t h'' @ [244] @ asc ''n, h'' @ [7897] @ asc '' kh'' @ [7849]
                      @ asc ''u)''),
                     (asc ''Gi'' @ [7845] @ asc ''y ch'' @ [7913] @ asc ''ng nh'' @ [7853]
                      @ asc ''n quy'' @ [7873] @ asc ''n s'' @ [7917] @ asc '' d'' @ [7909]
                      @ asc ''ng '' @ [273, 7845] @ asc ''t/'' @ [273, 259] @ asc ''ng k''
                      @ [253] @ asc '' xe'')],
        p_time = (asc ''20-30 ng'' @ [224] @ asc ''y''),
        p_fee = (asc ''Ph'' @ [237] @ asc '' c'' @ [244] @ asc ''ng ch'' @ [7913]
               @ asc ''ng + Thu'' @ [7871] @ asc '' thu nh'' @ [7853] @ asc ''p (n''
               @ [7871] @ asc ''u kh'' @ [244] @ asc ''ng '' @ [273, 432, 7907]
               @ asc ''c mi'' @ [7877] @ asc ''n)''),
        p_note = (asc ''Mi'' @ [7877] @ asc ''n thu'' @ [7871] @ asc '' n'' @ [7871]
                @ asc ''u th'' @ [7915] @ asc ''a k'' @ [7871] @ asc '' gi'' @ [7919]
                @ asc ''a cha m'' @ [7865] @ asc '' - con c'' @ [225] @ asc ''i, anh ch''
                @ [7883] @ asc '' em ru'' @ [7897] @ asc ''t'')\<rparr>),
      ((asc ''s'' @ [7893] @ asc '' '' @ [273, 7887]),
       \<lparr>p_title = (asc ''Th'' @ [7911] @ asc '' t'' @ [7909] @ asc ''c C'' @ [7845]
                  @ asc ''p/Sang t'' @ [234] @ asc ''n S'' @ [7893] @ asc '' ''
                  @ [273, 7887] @ asc '' (Gi'' @ [7845] @ asc ''y ch'' @ [7913]
                  @ asc ''ng nh'' @ [7853] @ asc ''n Quy'' @ [7873] @ asc ''n s'' @ [7917]
                  @ asc '' d'' @ [7909] @ asc ''ng '' @ [273, 7845] @ asc ''t)''),
        p_steps = [(asc ''1. N'' @ [7897] @ asc ''p h'' @ [7891] @ asc '' s'' @ [417]
                  @ asc '' t'' @ [7841] @ asc ''i V'' @ [259] @ asc ''n ph'' @ [242]
                  @ asc ''ng '' @ [273, 259] @ asc ''ng k'' @ [253] @ asc '' ''
                  @ [273, 7845] @ asc ''t '' @ [273] @ asc ''ai ho'' @ [7863]
                  @ asc ''c UBND c'' @ [7845] @ asc ''p huy'' @ [7879] @ asc ''n''),
                 (asc ''2. C'' @ [417] @ asc '' quan ch'' @ [7913] @ asc ''c n'' @ [259]
                  @ asc ''ng ki'' @ [7875] @ asc ''m tra h'' @ [7891] @ asc '' s'' @ [417]
                  @ asc '' v'' @ [224] @ asc '' hi'' @ [7879] @ asc ''n tr'' @ [7841]
                  @ asc ''ng''),
                 (asc ''3. Th'' @ [7921] @ asc ''c hi'' @ [7879] @ asc ''n ngh'' @ [297]
                  @ asc ''a v'' @ [7909] @ asc '' t'' @ [224] @ asc ''i ch'' @ [237]
                  @ asc ''nh (thu'' @ [7871] @ asc '', ph'' @ [237] @ asc '')''),
                 (asc ''4. Nh'' @ [7853] @ asc ''n Gi'' @ [7845] @ asc ''y ch'' @ [7913]
                  @ asc ''ng nh'' @ [7853] @ asc ''n m'' @ [7899] @ asc ''i ho'' @ [7863]
                  @ asc ''c x'' @ [225] @ asc ''c nh'' @ [7853] @ asc ''n sang t'' @ [234]
                  @ asc ''n'')],
        p_documents = [([272, 417] @ asc ''n '' @ [273, 259] @ asc ''ng k'' @ [253]
                      @ asc '' bi'' @ [7871] @ asc ''n '' @ [273, 7897] @ asc ''ng ''
                      @ [273, 7845] @ asc ''t '' @ [273] @ asc ''ai''),
                     (asc ''Gi'' @ [7845] @ asc ''y ch'' @ [7913] @ asc ''ng nh'' @ [7853]
                      @ asc ''n quy'' @ [7873] @ asc ''n s'' @ [7917] @ asc '' d'' @ [7909]
                      @ asc ''ng '' @ [273, 7845] @ asc ''t (B'' @ [7843] @ asc ''n g''
                      @ [7889] @ asc ''c)''),
                     (asc ''H'' @ [7907] @ asc ''p '' @ [273, 7891] @ asc ''ng chuy''
                      @ [7875] @ asc ''n nh'' @ [432, 7907] @ asc ''ng/t'' @ [7863]
                      @ asc ''ng cho (C'' @ [244] @ asc ''ng ch'' @ [7913] @ asc ''ng)''),
                     (asc ''T'' @ [7901] @ asc '' khai thu'' @ [7871] @ asc '' thu nh''
                      @ [7853] @ asc ''p c'' @ [225] @ asc '' nh'' @ [226] @ asc ''n v''
                      @ [224] @ asc '' l'' @ [7879] @ asc '' ph'' @ [237] @ asc '' tr''
                      @ [432, 7899] @ asc ''c b'' @ [7841])],
        p_time = (asc ''15-30 ng'' @ [224] @ asc ''y l'' @ [224] @ asc ''m vi'' @ [7879]
                @ asc ''c''),
        p_fee = (asc ''L'' @ [7879] @ asc '' ph'' @ [237] @ asc '' tr'' @ [432, 7899]
               @ asc ''c b'' @ [7841] @ asc '' (0.5%), Thu'' @ [7871] @ asc '' TNCN (2%)''),
        p_note = (asc ''Ki'' @ [7875] @ asc ''m tra k'' @ [7929] @ asc '' th'' @ [244]
                @ asc ''ng tin quy ho'' @ [7841] @ asc ''ch tr'' @ [432, 7899]
                @ asc ''c khi giao d'' @ [7883] @ asc ''ch'')\<rparr>),
      ((asc ''t'' @ [7841] @ asc ''m tr'' @ [250]),
       \<lparr>p_title = (asc ''Th'' @ [7911] @ asc '' t'' @ [7909] @ asc ''c '' @ [272, 259]
                  @ asc ''ng k'' @ [253] @ asc '' T'' @ [7841] @ asc ''m tr'' @ [250]),
        p_steps = [(asc ''1. Chu'' @ [7849] @ asc ''n b'' @ [7883] @ asc '' h'' @ [7891]
                  @ asc '' s'' @ [417] @ asc '' ph'' @ [225] @ asc ''p l'' @ [253]
                  @ asc '' v'' @ [7873] @ asc '' ch'' @ [7895] @ asc '' '' @ [7903]),
                 (asc ''2. N'' @ [7897] @ asc ''p h'' @ [7891] @ asc '' s'' @ [417]
                  @ asc '' t'' @ [7841] @ asc ''i C'' @ [244] @ asc ''ng an x'' @ [227]
                  @ asc ''/ph'' @ [432, 7901] @ asc ''ng ho'' @ [7863] @ asc ''c qua C''
                  @ [7893] @ asc ''ng d'' @ [7883] @ asc ''ch v'' @ [7909] @ asc '' c''
                  @ [244] @ asc ''ng B'' @ [7897] @ asc '' C'' @ [244] @ asc ''ng an''),
                 (asc ''3. C'' @ [225] @ asc ''n b'' @ [7897] @ asc '' ti'' @ [7871]
                  @ asc ''p nh'' @ [7853] @ asc ''n v'' @ [224] @ asc '' ki'' @ [7875]
                  @ asc ''m tra th'' @ [244] @ asc ''ng tin''),
                 (asc ''4. Nh'' @ [7853] @ asc ''n th'' @ [244] @ asc ''ng b'' @ [225]
                  @ asc ''o k'' @ [7871] @ asc ''t qu'' @ [7843] @ asc '' '' @ [273, 259]
                  @ asc ''ng k'' @ [253] @ asc '' c'' @ [432] @ asc '' tr'' @ [250])],
        p_documents = [(asc ''T'' @ [7901] @ asc '' khai thay '' @ [273, 7893] @ asc ''i th''
                      @ [244] @ asc ''ng tin c'' @ [432] @ asc '' tr'' @ [250]
                      @ asc '' (m'' @ [7851] @ asc ''u CT01)''),
                     (asc ''H'' @ [7907] @ asc ''p '' @ [273, 7891] @ asc ''ng thu''
                      @ [234] @ asc '' nh'' @ [224] @ asc '' ho'' @ [7863] @ asc ''c gi''
                      @ [7845] @ asc ''y t'' @ [7901] @ asc '' ch'' @ [7913]
                      @ asc ''ng minh ch'' @ [7895] @ asc '' '' @ [7903] @ asc '' h''
                      @ [7907] @ asc ''p ph'' @ [225] @ asc ''p''),
                     (asc ''CCCD/H'' @ [7897] @ asc '' chi'' @ [7871] @ asc ''u c''
                      @ [7911] @ asc ''a ng'' @ [432, 7901] @ asc ''i '' @ [273, 259]
                      @ asc ''ng k'' @ [253])],
        p_time = (asc ''3 ng'' @ [224] @ asc ''y l'' @ [224] @ asc ''m vi'' @ [7879]
                @ asc ''c''),
        p_fee = (asc ''15,000 VN'' @ [272] @ asc '' (n'' @ [7897] @ asc ''p tr'' @ [7921]
               @ asc ''c ti'' @ [7871] @ asc ''p), 7,000 VN'' @ [272] @ asc '' (tr''
               @ [7921] @ asc ''c tuy'' @ [7871] @ asc ''n)''),
        p_note = ([272, 259] @ asc ''ng k'' @ [253] @ asc '' qua d'' @ [7883] @ asc ''ch v''
                @ [7909] @ asc '' c'' @ [244] @ asc ''ng tr'' @ [7921] @ asc ''c tuy''
                @ [7871] @ asc ''n s'' @ [7869] @ asc '' nhanh v'' @ [224] @ asc '' r''
                @ [7867] @ asc '' h'' @ [417] @ asc ''n'')\<rparr>)
]"

text \<open>The keyword groups of lines 232 to 244.\<close>

definition key_map :: "(pystr \<times> pystr list) list" where
  "key_map =
     [((asc ''gi'' @ [7845] @ asc ''y ph'' @ [233] @ asc ''p l'' @ [225] @ asc ''i xe''),
        [(asc ''gi'' @ [7845] @ asc ''y ph'' @ [233] @ asc ''p l'' @ [225] @ asc ''i xe''),
         (asc ''b'' @ [7857] @ asc ''ng l'' @ [225] @ asc ''i''),
         asc ''gplx'']),
      (([273, 259] @ asc ''ng k'' @ [253] @ asc '' k'' @ [7871] @ asc ''t h'' @ [244]
        @ asc ''n''),
        [(asc ''k'' @ [7871] @ asc ''t h'' @ [244] @ asc ''n''),
         (asc ''l'' @ [7845] @ asc ''y v'' @ [7907]),
         (asc ''l'' @ [7845] @ asc ''y ch'' @ [7891] @ asc ''ng'')]),
      (([273, 259] @ asc ''ng k'' @ [253] @ asc '' kinh doanh''),
        [([273, 259] @ asc ''ng k'' @ [253] @ asc '' kinh doanh''),
         (asc ''h'' @ [7897] @ asc '' kinh doanh'')]),
      ((asc ''ly h'' @ [244] @ asc ''n''),
        [(asc ''ly h'' @ [244] @ asc ''n''),
         asc ''chia tay'']),
      ((asc ''th'' @ [224] @ asc ''nh l'' @ [7853] @ asc ''p doanh nghi'' @ [7879]
        @ asc ''p''),
        [(asc ''th'' @ [224] @ asc ''nh l'' @ [7853] @ asc ''p doanh nghi'' @ [7879]
          @ asc ''p''),
         (asc ''th'' @ [224] @ asc ''nh l'' @ [7853] @ asc ''p c'' @ [244] @ asc ''ng ty''),
         (asc ''m'' @ [7903] @ asc '' c'' @ [244] @ asc ''ng ty'')]),
      ((asc ''th'' @ [7915] @ asc ''a k'' @ [7871]),
        [(asc ''th'' @ [7915] @ asc ''a k'' @ [7871]),
         (asc ''di s'' @ [7843] @ asc ''n'')]),
      ((asc ''s'' @ [7893] @ asc '' '' @ [273, 7887]),
        [(asc ''s'' @ [7893] @ asc '' '' @ [273, 7887]),
         (asc ''s'' @ [7893] @ asc '' h'' @ [7891] @ asc ''ng''),
         (asc ''quy'' @ [7873] @ asc ''n s'' @ [7917] @ asc '' d'' @ [7909] @ asc ''ng ''
          @ [273, 7845] @ asc ''t''),
         ([273, 7845] @ asc ''t '' @ [273] @ asc ''ai'')]),
      ((asc ''t'' @ [7841] @ asc ''m tr'' @ [250]),
        [(asc ''t'' @ [7841] @ asc ''m tr'' @ [250]),
         (asc ''v'' @ [7855] @ asc ''ng m'' @ [7863] @ asc ''t'')]),
      ((asc ''th'' @ [244] @ asc ''ng b'' @ [225] @ asc ''o m'' @ [7851] @ asc ''u d''
        @ [7845] @ asc ''u''),
        [(asc ''m'' @ [7851] @ asc ''u d'' @ [7845] @ asc ''u''),
         (asc ''con d'' @ [7845] @ asc ''u'')]),
      ((asc ''t'' @ [7841] @ asc ''m ng'' @ [7915] @ asc ''ng kinh doanh''),
        [(asc ''t'' @ [7841] @ asc ''m ng'' @ [7915] @ asc ''ng kinh doanh''),
         (asc ''ng'' @ [7915] @ asc ''ng kinh doanh'')]),
      ((asc ''giao th'' @ [244] @ asc ''ng''),
        [(asc ''giao th'' @ [244] @ asc ''ng''),
         (asc ''xe m'' @ [225] @ asc ''y''),
         ([244] @ asc '' t'' @ [244]),
         (asc ''bi'' @ [7875] @ asc ''n b'' @ [225] @ asc ''o''),
         (asc ''b'' @ [7883] @ asc '' ph'' @ [7841] @ asc ''t'')])
]"

text \<open>
  Lines 246 to 249: the first key, in insertion order, one of whose keywords occurs in
  the normalised query.
\<close>

definition match_key :: "pystr \<Rightarrow> pystr option" where
  "match_key query_lower =
     map_option fst (find (\<lambda>(key, keywords). list_ex (\<lambda>kw. str_in kw query_lower) keywords) key_map)"

definition traffic_key :: pystr where
  "traffic_key = asc ''giao th'' @ [244] @ asc ''ng''"

definition traffic_answer :: pystr where
  "traffic_answer =
     asc ''## Tra c'' @ [7913] @ asc ''u Lu'' @ [7853] @ asc ''t Giao th'' @ [244]
     @ asc ''ng '' @ [272, 432, 7901] @ asc ''ng b'' @ [7897, 10]
     @ asc ''                '' @ [10] @ asc ''T'' @ [244] @ asc ''i '' @ [273, 227]
     @ asc '' t'' @ [236] @ asc ''m th'' @ [7845] @ asc ''y t'' @ [224] @ asc ''i li''
     @ [7879] @ asc ''u v'' @ [7873] @ asc '' **Tr'' @ [7853] @ asc ''t t'' @ [7921]
     @ asc '', an to'' @ [224] @ asc ''n giao th'' @ [244] @ asc ''ng '' @ [273, 432, 7901]
     @ asc ''ng b'' @ [7897] @ asc ''**. B'' @ [7841] @ asc ''n c'' @ [243] @ asc '' th''
     @ [7875] @ asc '' h'' @ [7887] @ asc ''i c'' @ [7909] @ asc '' th'' @ [7875]
     @ asc '' v'' @ [7873] @ asc '':'' @ [10] @ asc ''- C'' @ [225] @ asc ''c quy t''
     @ [7855] @ asc ''c tham gia giao th'' @ [244] @ asc ''ng ('' @ [273] @ asc ''i b''
     @ [7897] @ asc '', xe m'' @ [225] @ asc ''y, '' @ [244] @ asc '' t'' @ [244]
     @ asc '').'' @ [10] @ asc ''- '' @ [272] @ asc ''i'' @ [7873] @ asc ''u ki'' @ [7879]
     @ asc ''n ph'' @ [432, 417] @ asc ''ng ti'' @ [7879] @ asc ''n v'' @ [224]
     @ asc '' ng'' @ [432, 7901] @ asc ''i '' @ [273] @ asc ''i'' @ [7873] @ asc ''u khi''
     @ [7875] @ asc ''n.'' @ [10] @ asc ''- C'' @ [225] @ asc ''c h'' @ [224]
     @ asc ''nh vi b'' @ [7883] @ asc '' nghi'' @ [234] @ asc ''m c'' @ [7845]
     @ asc ''m v'' @ [224] @ asc '' m'' @ [7913] @ asc ''c x'' @ [7917] @ asc '' ph''
     @ [7841] @ asc ''t.'' @ [10] @ asc ''- H'' @ [7879] @ asc '' th'' @ [7889]
     @ asc ''ng bi'' @ [7875] @ asc ''n b'' @ [225] @ asc ''o v'' @ [224] @ asc '' t''
     @ [237] @ asc ''n hi'' @ [7879] @ asc ''u '' @ [273, 232] @ asc ''n.'' @ [10, 10]
     @ asc ''*G'' @ [7907] @ asc ''i '' @ [253] @ asc '': H'' @ [227] @ asc ''y ''
     @ [273, 7863] @ asc ''t c'' @ [226] @ asc ''u h'' @ [7887] @ asc ''i c'' @ [7909]
     @ asc '' th'' @ [7875] @ asc '' nh'' @ [432] @ asc '' '' @ [34] @ asc ''M'' @ [7913]
     @ asc ''c ph'' @ [7841] @ asc ''t n'' @ [7891] @ asc ''ng '' @ [273, 7897]
     @ asc '' c'' @ [7891] @ asc ''n'' @ [34] @ asc '' ho'' @ [7863] @ asc ''c '' @ [34]
     @ asc ''Quy t'' @ [7855] @ asc ''c v'' @ [432, 7907] @ asc ''t xe'' @ [34] @ asc '' ''
     @ [273, 7875] @ asc '' t'' @ [244] @ asc ''i tra c'' @ [7913] @ asc ''u chi ti''
     @ [7871] @ asc ''t nh'' @ [233] @ asc ''!*''"

text \<open>Lines 265 to 269: the answer rendered from a knowledge-base entry.\<close>

definition kb_response :: "procedure \<Rightarrow> pystr" where
  "kb_response proc =
     asc ''## '' @ p_title proc @ [10, 10]
     @ asc ''### C'' @ [193] @ asc ''C B'' @ [431, 7898] @ asc ''C TH'' @ [7920]
     @ asc ''C HI'' @ [7878] @ asc ''N:'' @ [10]
     @ str_join [10] (p_steps proc)
     @ [10, 10] @ asc ''### H'' @ [7890] @ asc '' S'' @ [416] @ asc '' C'' @ [7846]
     @ asc ''N THI'' @ [7870] @ asc ''T:'' @ [10]
     @ str_join [10] (map (\<lambda>doc. asc ''- '' @ doc) (p_documents proc))
     @ [10, 10] @ asc ''### TH'' @ [7900] @ asc ''I GIAN: '' @ p_time proc
     @ [10] @ asc ''### PH'' @ [205] @ asc '': '' @ p_fee proc
     @ [10] @ asc ''### L'' @ [431] @ asc ''U '' @ [221] @ asc '': '' @ p_note proc
     @ [10]"

text \<open>
  The shared resources (app/core/resources.py) as the tool sees them. Reading a
  property or calling a method returns a value (\<open>Inr\<close>) or raises (\<open>Inl\<close>, the
  \<open>str\<close> of the exception):
  \<^item> \<open>resources.fast_llm\<close> is a model, or \<open>None\<close> when its construction failed;
    the awaited call, under \<open>asyncio.wait_for(..., timeout=5.0)\<close>, returns a response
    content, raises, or times out;
  \<^item> \<open>resources.embeddings\<close> is an embedder with \<open>embed_query\<close>;
  \<^item> \<open>resources.get_index()\<close> is an index, or \<open>None\<close> when no Pinecone API key is
    configured (\<open>pc\<close> returns \<open>None\<close>, lines 49 to 52 and 71 to 80 of resources.py);
    it raises when the client or the index cannot be created.
  An index is queried with \<open>top_k=3\<close>, \<open>include_metadata=True\<close>,
  \<open>namespace="Corpus"\<close>. Its answer is falsy (\<open>None\<close>), or has no \<open>matches\<close>
  (\<open>Some None\<close>), or has a list of matches.
\<close>

datatype 'a outcome = Returns 'a | Raises pystr | TimesOut

type_synonym vec = "rat list"

record metadata =
  md_text :: "pystr option"
  md_source :: "pystr option"

record match =
  m_metadata :: "metadata option"
  m_score :: "rat option"

type_synonym query_response = "match list option option"

record resources =
  fast_llm :: "pystr + (pystr \<Rightarrow> content outcome) option"
  embeddings :: "pystr + (pystr \<Rightarrow> pystr + vec)"
  get_index :: "pystr + (vec \<Rightarrow> pystr + query_response) option"

definition opt_prompt :: "pystr \<Rightarrow> pystr" where
  "opt_prompt query =
     asc ''B'' @ [7841] @ asc ''n l'' @ [224] @ asc '' chuy'' @ [234] @ asc ''n gia tra c''
     @ [7913] @ asc ''u ph'' @ [225] @ asc ''p lu'' @ [7853] @ asc ''t Vi'' @ [7879]
     @ asc ''t Nam. '' @ [10] @ asc ''Nhi'' @ [7879] @ asc ''m v'' @ [7909]
     @ asc '': Chuy'' @ [7875] @ asc ''n '' @ [273, 7893] @ asc ''i c'' @ [226]
     @ asc ''u h'' @ [7887] @ asc ''i c'' @ [7911] @ asc ''a ng'' @ [432, 7901]
     @ asc ''i d'' @ [249] @ asc ''ng (c'' @ [243] @ asc '' th'' @ [7875] @ asc '' c''
     @ [243] @ asc '' l'' @ [7895] @ asc ''i ch'' @ [237] @ asc ''nh t'' @ [7843]
     @ asc '') th'' @ [224] @ asc ''nh m'' @ [7897] @ asc ''t chu'' @ [7895] @ asc ''i t''
     @ [7915] @ asc '' kh'' @ [243] @ asc ''a (keywords) ng'' @ [7855] @ asc ''n g''
     @ [7885] @ asc ''n, s'' @ [250] @ asc ''c t'' @ [237] @ asc ''ch '' @ [273, 7875]
     @ asc '' t'' @ [236] @ asc ''m ki'' @ [7871] @ asc ''m trong c'' @ [417] @ asc '' s''
     @ [7903] @ asc '' d'' @ [7919] @ asc '' li'' @ [7879] @ asc ''u lu'' @ [7853]
     @ asc ''t.'' @ [10, 10] @ asc ''QUY T'' @ [7854] @ asc ''C:'' @ [10] @ asc ''- Tr''
     @ [237] @ asc ''ch xu'' @ [7845] @ asc ''t 3-5 t'' @ [7915] @ asc '' kh'' @ [243]
     @ asc ''a quan tr'' @ [7885] @ asc ''ng nh'' @ [7845] @ asc ''t.'' @ [10]
     @ asc ''- S'' @ [7917] @ asc ''a l'' @ [7895] @ asc ''i ch'' @ [237] @ asc ''nh t''
     @ [7843] @ asc '' n'' @ [7871] @ asc ''u c'' @ [243] @ asc '' (VD: '' @ [34]
     @ asc ''quy t'' @ [7853] @ asc ''c'' @ [34] @ asc '' -> '' @ [34] @ asc ''quy t''
     @ [7855] @ asc ''c'' @ [34] @ asc '').'' @ [10] @ asc ''- Ng'' @ [244] @ asc ''n ng''
     @ [7919] @ asc '': Ti'' @ [7871] @ asc ''ng Vi'' @ [7879] @ asc ''t.'' @ [10]
     @ asc ''- CH'' @ [7880] @ asc '' TR'' @ [7842] @ asc '' V'' @ [7872] @ asc '' T''
     @ [7914] @ asc '' KH'' @ [211] @ asc ''A, kh'' @ [244] @ asc ''ng th'' @ [234]
     @ asc ''m b'' @ [7845] @ asc ''t k'' @ [7923] @ asc '' l'' @ [7901] @ asc ''i d''
     @ [7851] @ asc ''n n'' @ [224] @ asc ''o.'' @ [10, 10] @ asc ''C'' @ [226]
     @ asc ''u h'' @ [7887] @ asc ''i: '' @ query
     @ [10] @ asc ''T'' @ [7915] @ asc '' kh'' @ [243] @ asc ''a t'' @ [236] @ asc ''m ki''
     @ [7871] @ asc ''m:''"

text \<open>
  Lines 277 to 302: the optional rewrite of the query. Every failure leaves
  \<open>search_query\<close> at the original query: a raising property, a missing model, a
  timeout, an exception of the call, or a response whose content is not a string
  (\<open>.strip()\<close> then raises \<open>AttributeError\<close> inside the same \<open>try\<close>).
\<close>

definition optimize_query :: "resources \<Rightarrow> pystr \<Rightarrow> pystr" where
  "optimize_query R query =
     (case fast_llm R of
        Inl e \<Rightarrow> query
      | Inr None \<Rightarrow> query
      | Inr (Some llm) \<Rightarrow>
          (case llm (opt_prompt query) of
             Returns (StrContent s) \<Rightarrow> str_strip s
           | Returns (ListContent ps) \<Rightarrow> query
           | Raises e \<Rightarrow> query
           | TimesOut \<Rightarrow> query))"

text \<open>The literal tag that the system prompt of the agent tells the model to react to.\<close>

definition fallback_marker :: pystr where
  "fallback_marker = asc ''[FALLBACK_SIGNAL]''"

text \<open>Line 310, returned when \<open>get_index()\<close> gives \<open>None\<close>.\<close>

definition index_unavailable_text :: pystr where
  "index_unavailable_text =
     [9888, 65039] @ asc '' Xin l'' @ [7895] @ asc ''i, h'' @ [7879] @ asc '' th'' @ [7889]
     @ asc ''ng tra c'' @ [7913] @ asc ''u '' @ [273] @ asc ''ang t'' @ [7841]
     @ asc ''m th'' @ [7901] @ asc ''i kh'' @ [244] @ asc ''ng kh'' @ [7843] @ asc '' d''
     @ [7909] @ asc ''ng. Vui l'' @ [242] @ asc ''ng th'' @ [7917] @ asc '' l'' @ [7841]
     @ asc ''i sau.''"

text \<open>Lines 326 to 328, returned on an empty result; the literal begins with the tag.\<close>

definition no_match_text :: "pystr \<Rightarrow> pystr" where
  "no_match_text query =
     fallback_marker @ asc '' T'' @ [244] @ asc ''i ch'' @ [432] @ asc ''a t'' @ [236]
     @ asc ''m th'' @ [7845] @ asc ''y th'' @ [244] @ asc ''ng tin chi ti'' @ [7871]
     @ asc ''t v'' @ [7873] @ asc '' '' @ [34] @ query
     @ [34] @ asc '' trong c'' @ [417] @ asc '' s'' @ [7903] @ asc '' d'' @ [7919]
     @ asc '' li'' @ [7879] @ asc ''u lu'' @ [7853] @ asc ''t n'' @ [7897] @ asc ''i b''
     @ [7897] @ asc ''.'' @ [10] @ asc ''                '' @ [10] @ asc ''B'' @ [7841]
     @ asc ''n vui l'' @ [242] @ asc ''ng s'' @ [7917] @ asc '' d'' @ [7909] @ asc ''ng c''
     @ [244] @ asc ''ng c'' @ [7909] @ asc '' '' @ [96] @ asc ''web_search'' @ [96]
     @ asc '' '' @ [273, 7875] @ asc '' t'' @ [236] @ asc ''m ki'' @ [7871] @ asc ''m th''
     @ [244] @ asc ''ng tin m'' @ [7899] @ asc ''i nh'' @ [7845] @ asc ''t tr'' @ [234]
     @ asc ''n internet ho'' @ [7863] @ asc ''c h'' @ [7887] @ asc ''i v'' @ [7873]
     @ asc '' c'' @ [225] @ asc ''c d'' @ [7883] @ asc ''ch v'' @ [7909] @ asc '' ph''
     @ [7893] @ asc '' bi'' @ [7871] @ asc ''n: GPLX, K'' @ [7871] @ asc ''t h'' @ [244]
     @ asc ''n, Ly h'' @ [244] @ asc ''n, '' @ [272] @ asc ''K Kinh doanh.''"

text \<open>Line 353, returned by the \<open>except\<close> of the vector search; it begins with the tag.\<close>

definition vector_error_text :: pystr where
  "vector_error_text =
     fallback_marker @ asc '' H'' @ [7879] @ asc '' th'' @ [7889] @ asc ''ng tra c''
     @ [7913] @ asc ''u n'' @ [7897] @ asc ''i b'' @ [7897] @ asc '' '' @ [273]
     @ asc ''ang g'' @ [7863] @ asc ''p s'' @ [7921] @ asc '' c'' @ [7889]
     @ asc ''. Vui l'' @ [242] @ asc ''ng s'' @ [7917] @ asc '' d'' @ [7909] @ asc ''ng c''
     @ [244] @ asc ''ng c'' @ [7909] @ asc '' '' @ [96] @ asc ''web_search'' @ [96]
     @ asc '' '' @ [273, 7875] @ asc '' t'' @ [236] @ asc ''m ki'' @ [7871] @ asc ''m t''
     @ [7915] @ asc '' internet ho'' @ [7863] @ asc ''c di'' @ [7877] @ asc ''n ''
     @ [273, 7841] @ asc ''t l'' @ [7841] @ asc ''i c'' @ [226] @ asc ''u h'' @ [7887]
     @ asc ''i.''"

text \<open>Line 357, returned by the outermost \<open>except\<close>.\<close>

definition generic_error_text :: pystr where
  "generic_error_text =
     [9888, 65039] @ asc '' Xin l'' @ [7895] @ asc ''i, '' @ [273, 227] @ asc '' c''
     @ [243] @ asc '' l'' @ [7895] @ asc ''i khi x'' @ [7917] @ asc '' l'' @ [253]
     @ asc '' c'' @ [226] @ asc ''u h'' @ [7887] @ asc ''i. Vui l'' @ [242] @ asc ''ng th''
     @ [7917] @ asc '' l'' @ [7841] @ asc ''i.''"

definition unknown_source :: pystr where
  "unknown_source = asc ''Kh'' @ [244] @ asc ''ng r'' @ [245] @ asc '' ngu'' @ [7891] @ asc ''n''"

text \<open>
  Lines 332 to 340: one formatted block per match, numbered from 1. A missing
  \<open>metadata\<close> is \<open>{}\<close>, a missing \<open>text\<close> is empty, a missing \<open>score\<close> is 0.
\<close>

definition format_match :: "str_builtins \<Rightarrow> nat \<Rightarrow> match \<Rightarrow> pystr" where
  "format_match B i m =
     (let md = (case m_metadata m of None \<Rightarrow> \<lparr>md_text = None, md_source = None\<rparr> | Some d \<Rightarrow> d);
          text = take 800 (case md_text md of None \<Rightarrow> [] | Some x \<Rightarrow> x);
          source = (case md_source md of None \<Rightarrow> unknown_source | Some s \<Rightarrow> s);
          score = (case m_score m of None \<Rightarrow> 0 | Some x \<Rightarrow> x)
      in asc ''### K'' @ [7871] @ asc ''t qu'' @ [7843] @ asc '' '' @ str_of_nat i
         @ asc '' ('' @ [272, 7897] @ asc '' li'' @ [234] @ asc ''n quan: ''
         @ format_percent B score
         @ asc '')'' @ [10] @ asc ''**Ngu'' @ [7891] @ asc ''n:** '' @ source
         @ [10] @ asc ''**N'' @ [7897] @ asc ''i dung:** '' @ text @ asc ''...'')"

definition found_text :: "str_builtins \<Rightarrow> match list \<Rightarrow> pystr" where
  "found_text B ms =
     (let top = take 3 ms;
          formatted_results = map (\<lambda>(i, m). format_match B i m) (zip [1 ..< Suc (length top)] top);
          result_text = str_join [10, 10] formatted_results
      in asc ''D'' @ [7921] @ asc ''a tr'' @ [234] @ asc ''n t'' @ [224] @ asc ''i li''
         @ [7879] @ asc ''u ph'' @ [225] @ asc ''p lu'' @ [7853] @ asc ''t, t'' @ [244]
         @ asc ''i t'' @ [236] @ asc ''m th'' @ [7845] @ asc ''y th'' @ [244]
         @ asc ''ng tin sau:'' @ [10, 10]
         @ result_text
         @ [10, 10, 128161] @ asc '' **L'' @ [432] @ asc ''u '' @ [253] @ asc '':** ''
         @ [272, 226] @ asc ''y l'' @ [224] @ asc '' tham kh'' @ [7843] @ asc ''o chung. N''
         @ [234] @ asc ''n li'' @ [234] @ asc ''n h'' @ [7879] @ asc '' c'' @ [417]
         @ asc '' quan c'' @ [243] @ asc '' th'' @ [7849] @ asc ''m quy'' @ [7873] @ asc ''n ''
         @ [273, 7875] @ asc '' bi'' @ [7871] @ asc ''t ch'' @ [237] @ asc ''nh x'' @ [225]
         @ asc ''c.'')"

text \<open>
  Lines 304 to 353, the vector search. The statements run in source order:
  \<open>resources.embeddings\<close>, then \<open>resources.get_index()\<close>, then the test
  \<open>if not index\<close>, then \<open>embed_query\<close>, then \<open>index.query\<close>; an exception at any
  of them is caught by \<open>except Exception as vector_error\<close>.
\<close>

definition vector_search :: "str_builtins \<Rightarrow> resources \<Rightarrow> pystr \<Rightarrow> pystr \<Rightarrow> pystr" where
  "vector_search B R query search_query =
     (case embeddings R of
        Inl e \<Rightarrow> vector_error_text
      | Inr embedder \<Rightarrow>
          (case get_index R of
             Inl e \<Rightarrow> vector_error_text
           | Inr None \<Rightarrow> index_unavailable_text
           | Inr (Some index) \<Rightarrow>
               (case embedder search_query of
                  Inl e \<Rightarrow> vector_error_text
                | Inr query_vector \<Rightarrow>
                    (case index query_vector of
                       Inl e \<Rightarrow> vector_error_text
                     | Inr None \<Rightarrow> no_match_text query
                     | Inr (Some None) \<Rightarrow> no_match_text query
                     | Inr (Some (Some ms)) \<Rightarrow>
                         (if ms = [] then no_match_text query else found_text B ms)))))"

text \<open>
  \<open>legal_assistant\<close>, lines 23 to 357. The tool returns a string on every path;
  \<open>procedures[matched_key]\<close> on a key without an entry would raise \<open>KeyError\<close> into
  the outermost \<open>except\<close>.
\<close>

definition legal_assistant :: "str_builtins \<Rightarrow> resources \<Rightarrow> pystr \<Rightarrow> pystr" where
  "legal_assistant B R query =
     (let query_lower = str_strip (str_lower B query) in
      case match_key query_lower of
        Some matched_key \<Rightarrow>
          (if matched_key = traffic_key then traffic_answer
           else case map_of procedures matched_key of
                  None \<Rightarrow> generic_error_text
                | Some proc \<Rightarrow> kb_response proc)
      | None \<Rightarrow> vector_search B R query (optimize_query R query))"

section \<open>Fee lookup: \<open>calculate_fee\<close> (app/agent/legal_tools.py)\<close>

text \<open>The fee table of lines 437 to 469, in insertion order.\<close>

definition fee_table :: "(pystr \<times> (pystr \<times> pystr) list) list" where
  "fee_table =
     [(([273, 259] @ asc ''ng k'' @ [253] @ asc '' kinh doanh''),
        [((asc ''H'' @ [7897] @ asc '' kinh doanh''),
          (asc ''50,000 VN'' @ [272])),
         ((asc ''C'' @ [244] @ asc ''ng ty TNHH''),
          (asc ''300,000 VN'' @ [272])),
         ((asc ''C'' @ [244] @ asc ''ng ty c'' @ [7893] @ asc '' ph'' @ [7847] @ asc ''n''),
          (asc ''500,000 VN'' @ [272])),
         ((asc ''Doanh nghi'' @ [7879] @ asc ''p t'' @ [432] @ asc '' nh'' @ [226]
           @ asc ''n''),
          (asc ''100,000 VN'' @ [272]))]),
      ((asc ''ly h'' @ [244] @ asc ''n''),
        [((asc ''Ly h'' @ [244] @ asc ''n thu'' @ [7853] @ asc ''n t'' @ [236]
           @ asc ''nh (UBND)''),
          (asc ''0 VN'' @ [272] @ asc '' (mi'' @ [7877] @ asc ''n ph'' @ [237] @ asc '')'')),
         ((asc ''Ly h'' @ [244] @ asc ''n c'' @ [243] @ asc '' tranh ch'' @ [7845]
           @ asc ''p (T'' @ [242] @ asc ''a '' @ [225] @ asc ''n)''),
          (asc ''200,000 - 500,000 VN'' @ [272])),
         ((asc ''Ph'' @ [237] @ asc '' lu'' @ [7853] @ asc ''t s'' @ [432] @ asc '' (n''
           @ [7871] @ asc ''u thu'' @ [234] @ asc '')''),
          (asc ''5,000,000 - 20,000,000 VN'' @ [272]))]),
      ((asc ''c'' @ [244] @ asc ''ng ch'' @ [7913] @ asc ''ng''),
        [((asc ''H'' @ [7907] @ asc ''p '' @ [273, 7891] @ asc ''ng mua b'' @ [225]
           @ asc ''n '' @ [273, 7845] @ asc ''t (< 100m'' @ [178] @ asc '')''),
          (asc ''500,000 VN'' @ [272])),
         ((asc ''H'' @ [7907] @ asc ''p '' @ [273, 7891] @ asc ''ng mua b'' @ [225]
           @ asc ''n '' @ [273, 7845] @ asc ''t (100-300m'' @ [178] @ asc '')''),
          (asc ''1,000,000 VN'' @ [272])),
         ((asc ''H'' @ [7907] @ asc ''p '' @ [273, 7891] @ asc ''ng vay ti'' @ [7873]
           @ asc ''n''),
          (asc ''0.5% gi'' @ [225] @ asc '' tr'' @ [7883] @ asc '' (t'' @ [7889]
           @ asc ''i thi'' @ [7875] @ asc ''u 50k)'')),
         ((asc ''Di ch'' @ [250] @ asc ''c''),
          (asc ''50,000 - 200,000 VN'' @ [272]))]),
      ((asc ''gi'' @ [7845] @ asc ''y ph'' @ [233] @ asc ''p l'' @ [225] @ asc ''i xe''),
        [((asc ''C'' @ [7845] @ asc ''p m'' @ [7899] @ asc ''i/'' @ [272, 7893]
           @ asc ''i GPLX''),
          (asc ''135,000 VN'' @ [272])),
         ((asc ''Kh'' @ [225] @ asc ''m s'' @ [7913] @ asc ''c kh'' @ [7887] @ asc ''e''),
          (asc ''~300,000 VN'' @ [272]))]),
      ((asc ''h'' @ [7897] @ asc '' chi'' @ [7871] @ asc ''u''),
        [((asc ''H'' @ [7897] @ asc '' chi'' @ [7871] @ asc ''u th'' @ [432, 7901]
           @ asc ''ng (c'' @ [7845] @ asc ''p t'' @ [7841] @ asc ''i '' @ [273, 7883]
           @ asc ''a ph'' @ [432, 417] @ asc ''ng)''),
          (asc ''200,000 VN'' @ [272])),
         ((asc ''C'' @ [7845] @ asc ''p l'' @ [7841] @ asc ''i do b'' @ [7883] @ asc '' m''
           @ [7845] @ asc ''t/h'' @ [432] @ asc '' h'' @ [7887] @ asc ''ng''),
          (asc ''400,000 VN'' @ [272])),
         ((asc ''Gia h'' @ [7841] @ asc ''n h'' @ [7897] @ asc '' chi'' @ [7871]
           @ asc ''u''),
          (asc ''100,000 VN'' @ [272]))]),
      (asc ''visa'',
        [((asc ''E-visa 30 ng'' @ [224] @ asc ''y (nh'' @ [7853] @ asc ''p c'' @ [7843]
           @ asc ''nh 1 l'' @ [7847] @ asc ''n)''),
          asc ''25 USD''),
         ((asc ''Visa 90 ng'' @ [224] @ asc ''y (nh'' @ [7853] @ asc ''p c'' @ [7843]
           @ asc ''nh nhi'' @ [7873] @ asc ''u l'' @ [7847] @ asc ''n)''),
          asc ''50 USD''),
         ((asc ''Th'' @ [7867] @ asc '' t'' @ [7841] @ asc ''m tr'' @ [250]
           @ asc '' (1-3 n'' @ [259] @ asc ''m)''),
          asc ''145 - 155 USD'')])
]"

definition fee_note :: pystr where
  "fee_note =
     [10, 128204] @ asc '' **L'' @ [432] @ asc ''u '' @ [253] @ asc '':** Ph'' @ [237]
     @ asc '' c'' @ [243] @ asc '' th'' @ [7875] @ asc '' thay '' @ [273, 7893]
     @ asc ''i, n'' @ [234] @ asc ''n ki'' @ [7875] @ asc ''m tra v'' @ [7899]
     @ asc ''i c'' @ [417] @ asc '' quan tr'' @ [7921] @ asc ''c ti'' @ [7871] @ asc ''p.''"

definition fee_not_found :: "pystr \<Rightarrow> pystr" where
  "fee_not_found service =
     asc ''Ch'' @ [432] @ asc ''a c'' @ [243] @ asc '' th'' @ [244] @ asc ''ng tin l''
     @ [7879] @ asc '' ph'' @ [237] @ asc '' cho '' @ [34] @ service
     @ [34] @ asc ''.'' @ [10, 10] @ asc ''**C'' @ [225] @ asc ''c d'' @ [7883]
     @ asc ''ch v'' @ [7909] @ asc '' c'' @ [243] @ asc '' th'' @ [7875] @ asc '' tra:**''
     @ [10] @ asc ''- '' @ [272, 259] @ asc ''ng k'' @ [253] @ asc '' kinh doanh'' @ [10]
     @ asc ''- Ly h'' @ [244] @ asc ''n'' @ [10] @ asc ''- C'' @ [244] @ asc ''ng ch''
     @ [7913] @ asc ''ng'' @ [10] @ asc ''- Gi'' @ [7845] @ asc ''y ph'' @ [233]
     @ asc ''p l'' @ [225] @ asc ''i xe'' @ [10] @ asc ''- H'' @ [7897] @ asc '' chi''
     @ [7871] @ asc ''u'' @ [10, 10] @ asc ''Vui l'' @ [242] @ asc ''ng ch'' @ [7885]
     @ asc ''n m'' @ [7897] @ asc ''t trong c'' @ [225] @ asc ''c d'' @ [7883]
     @ asc ''ch v'' @ [7909] @ asc '' tr'' @ [234] @ asc ''n.''"

text \<open>
  \<open>calculate_fee(service, details="")\<close>, lines 424 to 498. The loop of lines 473 to
  476 keeps the first key of the table that occurs in \<open>service.lower()\<close>; the test
  \<open>if matched\<close> is on a key of the table, and every key is a non-empty string.
\<close>

definition calculate_fee :: "str_builtins \<Rightarrow> pystr \<Rightarrow> pystr \<Rightarrow> pystr" where
  "calculate_fee B service details =
     (let service_lower = str_lower B service;
          matched = find (\<lambda>(key, fees). str_in key service_lower) fee_table
      in case matched of
           Some (key, fees) \<Rightarrow>
             (if key \<noteq> [] then
                asc ''### L'' @ [7879] @ asc '' ph'' @ [237] @ asc '': '' @ str_upper B key @ [10, 10]
                @ concat (map (\<lambda>(item, fee). asc ''- **'' @ item @ asc '':** '' @ fee @ [10]) fees)
                @ fee_note
              else fee_not_found service)
         | None \<Rightarrow> fee_not_found service)"

section \<open>Persistence and the agent as the endpoints see them (app/api/v1/chat.py)\<close>

text \<open>
  The two tables of the persistence collaborator. \<open>created_at\<close> is the insertion
  time the database assigns; \<open>updated_at\<close> is \<open>None\<close> until the code writes it.
\<close>

record conversation_row =
  c_id :: pystr
  c_user_id :: pystr
  c_title :: pystr
  c_updated_at :: "pystr option"

record message_row =
  r_conversation_id :: pystr
  r_role :: pystr
  r_content :: content
  r_created_at :: nat

record database =
  conversations :: "conversation_row list"
  message_rows :: "message_row list"

text \<open>
  The exceptions that matter to the control flow: FastAPI's \<open>HTTPException\<close>, with
  status code and detail, and any other exception, kept as its \<open>str\<close>. Both are
  subclasses of \<open>Exception\<close>.
\<close>

datatype exn = HTTPException nat pystr | OtherException pystr

text \<open>The database requests of the endpoints; each \<open>execute()\<close> can raise.\<close>

datatype db_call =
    CheckOwnership
  | FetchMessages
  | InsertConversation
  | InsertBothMessages
  | InsertUserMessage
  | InsertAssistantMessage
  | InsertAttachment
  | UpdateTimestamp

datatype state_call = GetState | UpdateState

text \<open>The events of \<open>agent_executor.astream_events\<close> that the endpoint looks at.\<close>

record chunk =
  tool_call_chunks :: bool
  kwargs_tool_calls :: bool
  chunk_content :: content

datatype stream_event =
    OnToolStart pystr
  | OnToolEnd pystr
  | OnChatModelStream chunk
  | OtherEvent pystr

text \<open>How the asynchronous iteration over the events ends.\<close>

datatype ending = Completed | RaisesDisconnect | RaisesException pystr

text \<open>
  What the surroundings decide for one request:
  \<^item> \<open>supabase\<close>: the module-level client exists (it is \<open>None\<close> without URL or key);
  \<^item> \<open>fault\<close>: the exception, if any, that a database request raises;
  \<^item> \<open>assigned_id\<close>: the id the database gives a newly inserted conversation, or
    \<open>None\<close> when the insert comes back with empty data (the row is then taken as not
    stored);
  \<^item> \<open>clock\<close>, \<open>utcnow\<close>: the database's insertion time and
    \<open>datetime.utcnow().isoformat()\<close>;
  \<^item> \<open>log_fault\<close>: \<open>log_to_file\<close> of this module opens the log file without a
    \<open>try\<close>, so it can raise;
  \<^item> the compiled agent graph: \<open>ainvoke\<close> returns the output messages or raises;
    \<open>astream_events\<close> yields events and ends; \<open>aget_state\<close> after a run raises,
    or gives a snapshot without \<open>messages\<close>, or the messages;
  \<^item> \<open>state_fault\<close>: the exception, if any, of a checkpointer call made by the
    upload endpoint;
  \<^item> \<open>format_exc\<close>: the text of \<open>traceback.format_exc()\<close>.
\<close>

record chat_env =
  supabase :: bool
  fault :: "db_call \<Rightarrow> pystr option"
  assigned_id :: "pystr option"
  clock :: nat
  utcnow :: pystr
  log_fault :: "pystr option"
  agent_ainvoke :: "pystr option \<Rightarrow> (pystr \<times> content) list \<Rightarrow> pystr + message list"
  agent_astream_events :: "pystr option \<Rightarrow> (pystr \<times> content) list \<Rightarrow> stream_event list \<times> ending"
  agent_aget_state :: "pystr option \<Rightarrow> pystr + message list option"
  state_fault :: "state_call \<Rightarrow> pystr option"
  format_exc :: pystr

text \<open>\<open>if conversation_id\<close>: neither \<open>None\<close> nor the empty string.\<close>

fun present :: "pystr option \<Rightarrow> bool" where
  "present None = False"
| "present (Some cid) = (cid \<noteq> [])"

text \<open>
  \<open>select("id").eq("id", conversation_id).eq("user_id", user_id)\<close> returns data.
\<close>

definition owns :: "database \<Rightarrow> pystr \<Rightarrow> pystr \<Rightarrow> bool" where
  "owns db cid uid = list_ex (\<lambda>c. c_id c = cid \<and> c_user_id c = uid) (conversations db)"

text \<open>
  \<open>select("role, content").eq("conversation_id", conversation_id)
  .order("created_at", desc=False).limit(20)\<close>: the rows of the conversation in
  ascending order of creation, cut after the first 20. Rows with equal \<open>created_at\<close>
  keep their insertion order here; the database leaves their order open.
\<close>

definition fetch_messages :: "database \<Rightarrow> pystr \<Rightarrow> (pystr \<times> content) list" where
  "fetch_messages db cid =
     map (\<lambda>r. (r_role r, r_content r))
       (take 20 (sort_key r_created_at (filter (\<lambda>r. r_conversation_id r = cid) (message_rows db))))"

definition insert_rows :: "database \<Rightarrow> message_row list \<Rightarrow> database" where
  "insert_rows db rows = db\<lparr>message_rows := message_rows db @ rows\<rparr>"

definition insert_conversation :: "database \<Rightarrow> conversation_row \<Rightarrow> database" where
  "insert_conversation db c = db\<lparr>conversations := conversations db @ [c]\<rparr>"

text \<open>\<open>update({"updated_at": ...}).eq("id", conversation_id)\<close>\<close>

definition update_timestamp :: "database \<Rightarrow> pystr \<Rightarrow> pystr \<Rightarrow> database" where
  "update_timestamp db cid ts =
     db\<lparr>conversations :=
          map (\<lambda>c. if c_id c = cid then c\<lparr>c_updated_at := Some ts\<rparr> else c) (conversations db)\<rparr>"

section \<open>The synchronous endpoint: \<open>chat_endpoint\<close> (app/api/v1/chat.py)\<close>

record ChatResponse =
  cr_response :: pystr
  cr_conversation_id :: "pystr option"

text \<open>
  The body of the inner \<open>try\<close>, lines 59 to 81: ownership check, the 403 raised when
  it finds nothing, then the history query.
\<close>

definition verify_and_fetch :: "chat_env \<Rightarrow> database \<Rightarrow> pystr \<Rightarrow> pystr \<Rightarrow> exn + (pystr \<times> content) list" where
  "verify_and_fetch E db uid cid =
     (case fault E CheckOwnership of
        Some e \<Rightarrow> Inl (OtherException e)
      | None \<Rightarrow>
          if \<not> owns db cid uid then Inl (HTTPException 403 (asc ''Access denied to conversation''))
          else (case fault E FetchMessages of
                  Some e \<Rightarrow> Inl (OtherException e)
                | None \<Rightarrow> Inr (fetch_messages db cid)))"

text \<open>
  Lines 56 to 87. \<open>except Exception as db_error\<close> catches whatever the inner \<open>try\<close>
  raised, prints a warning and goes on; \<open>history_messages\<close> is then still empty,
  because the list is filled only after both requests have returned.
\<close>

definition chat_history :: "chat_env \<Rightarrow> database \<Rightarrow> pystr \<Rightarrow> pystr option \<Rightarrow> pystr \<Rightarrow> (pystr \<times> content) list" where
  "chat_history E db uid conversation_id message =
     (let history_messages =
            (case conversation_id of
               None \<Rightarrow> []
             | Some cid \<Rightarrow>
                 if cid \<noteq> [] \<and> supabase E then
                   (case verify_and_fetch E db uid cid of
                      Inl db_error \<Rightarrow> []
                    | Inr h \<Rightarrow> h)
                 else [])
      in history_messages @ [(asc ''user'', StrContent message)])"

text \<open>\<open>_get_text_content\<close>, lines 96 to 101.\<close>

fun get_text_content :: "content \<Rightarrow> pystr" where
  "get_text_content (StrContent s) = s"
| "get_text_content (ListContent ps) = join_parts ps"

text \<open>
  Step 4, lines 106 to 141: create the conversation if there is none, insert both
  messages, update the timestamp. An exception anywhere leaves the block; what was
  written before it stays written.
\<close>

definition save_exchange ::
  "chat_env \<Rightarrow> database \<Rightarrow> pystr \<Rightarrow> pystr \<Rightarrow> pystr option \<Rightarrow> pystr \<Rightarrow> pystr option \<times> database" where
  "save_exchange E db uid message conversation_id assistant_response =
     (if \<not> supabase E then (conversation_id, db)
      else
        let created =
              (if present conversation_id then Inr (conversation_id, db)
               else (case fault E InsertConversation of
                       Some e \<Rightarrow> Inl e
                     | None \<Rightarrow>
                         (case assigned_id E of
                            None \<Rightarrow> Inr (conversation_id, db)
                          | Some new_id \<Rightarrow>
                              Inr (Some new_id,
                                   insert_conversation db
                                     \<lparr>c_id = new_id, c_user_id = uid,
                                      c_title = take 50 message @ asc ''...'',
                                      c_updated_at = None\<rparr>))))
        in case created of
             Inl e \<Rightarrow> (conversation_id, db)
           | Inr (conversation_id1, db1) \<Rightarrow>
               (case conversation_id1 of
                  None \<Rightarrow> (conversation_id1, db1)
                | Some cid \<Rightarrow>
                    if cid = [] then (conversation_id1, db1)
                    else (case fault E InsertBothMessages of
                            Some e \<Rightarrow> (conversation_id1, db1)
                          | None \<Rightarrow>
                              (let db2 = insert_rows db1
                                     [\<lparr>r_conversation_id = cid, r_role = asc ''user'',
                                       r_content = StrContent message, r_created_at = clock E\<rparr>,
                                      \<lparr>r_conversation_id = cid, r_role = asc ''assistant'',
                                       r_content = StrContent assistant_response,
                                       r_created_at = clock E\<rparr>]
                               in case fault E UpdateTimestamp of
                                    Some e \<Rightarrow> (conversation_id1, db2)
                                  | None \<Rightarrow> (conversation_id1, update_timestamp db2 cid (utcnow E))))))"

text \<open>The outermost handler, lines 149 to 158: every exception becomes a 500.\<close>

definition server_error :: "str_builtins \<Rightarrow> pystr \<Rightarrow> exn" where
  "server_error B e =
     (if str_in (asc ''row-level security'') (str_lower B e)
      then HTTPException 500 (asc ''Database RLS error (chat still works): '' @ take 100 e)
      else HTTPException 500 e)"

text \<open>
  \<open>chat_endpoint\<close>, lines 52 to 158. The result is the response or the exception
  that leaves the function, the database afterwards, and the calls made to the agent
  (thread id and input messages).
\<close>

definition chat_endpoint ::
  "str_builtins \<Rightarrow> chat_env \<Rightarrow> database \<Rightarrow> pystr \<Rightarrow> pystr \<Rightarrow> pystr option
     \<Rightarrow> (exn + ChatResponse) \<times> database \<times> (pystr option \<times> (pystr \<times> content) list) list" where
  "chat_endpoint B E db uid message conversation_id =
     (let history_messages = chat_history E db uid conversation_id message;
          call = (conversation_id, history_messages)
      in case agent_ainvoke E conversation_id history_messages of
           Inl e \<Rightarrow> (Inl (server_error B e), db, [call])
         | Inr output_messages \<Rightarrow>
             if output_messages = []
             then (Inl (server_error B (asc ''list index out of range'')), db, [call])
             else
               let assistant_response = get_text_content (msg_content (last output_messages));
                   (conversation_id1, db1) =
                      save_exchange E db uid message conversation_id assistant_response
               in (case log_fault E of
                     Some e \<Rightarrow> (Inl (server_error B e), db1, [call])
                   | None \<Rightarrow>
                       (Inr \<lparr>cr_response = assistant_response, cr_conversation_id = conversation_id1\<rparr>,
                        db1, [call])))"

section \<open>Document upload: \<open>upload_pdf\<close> (app/api/v1/chat.py)\<close>

text \<open>
  An uploaded file: its name, if the client sent one, and what reading it as a PDF
  gives: an exception, or for each page the result of \<open>extract_text()\<close>.
\<close>

record upload_file =
  filename :: "pystr option"
  pages :: "pystr + pystr option list"

record upload_response =
  up_status :: pystr
  up_filename :: pystr
  up_message :: pystr
  extracted_text :: pystr

text \<open>The checkpointer: the stored agent state of each thread.\<close>

type_synonym checkpoints = "pystr \<Rightarrow> AgentState option"

definition stored_pdf_context :: "checkpoints \<Rightarrow> pystr \<Rightarrow> pystr" where
  "stored_pdf_context store cid = (case store cid of None \<Rightarrow> [] | Some st \<Rightarrow> pdf_context st)"

definition read_error_label :: pystr where
  "read_error_label = asc ''L'' @ [7895] @ asc ''i '' @ [273, 7885] @ asc ''c PDF: ''"

definition empty_pdf_error :: pystr where
  "empty_pdf_error =
     asc ''PDF kh'' @ [244] @ asc ''ng ch'' @ [7913] @ asc ''a v'' @ [259] @ asc ''n b''
     @ [7843] @ asc ''n c'' @ [243] @ asc '' th'' @ [7875] @ asc '' '' @ [273, 7885]
     @ asc ''c '' @ [273, 432, 7907] @ asc ''c''"

text \<open>
  Step 1, lines 223 to 239: the text of all pages, each followed by a newline, without
  NUL characters; a read error or a blank text becomes a 400.
\<close>

definition read_pdf :: "upload_file \<Rightarrow> exn + pystr" where
  "read_pdf file =
     (case pages file of
        Inl e \<Rightarrow> Inl (HTTPException 400 (read_error_label @ e))
      | Inr ps \<Rightarrow>
          (let text = filter (\<lambda>c. c \<noteq> 0)
                        (concat (map (\<lambda>p. (case p of None \<Rightarrow> [] | Some x \<Rightarrow> x) @ [10]) ps))
           in if str_strip text = []
              then Inl (HTTPException 400 (read_error_label @ empty_pdf_error))
              else Inr text))"

text \<open>Line 249: what one document adds. \<open>file.filename\<close> is printed as it is.\<close>

definition document_block :: "upload_file \<Rightarrow> pystr \<Rightarrow> pystr" where
  "document_block file text =
     [10, 10] @ asc ''--- DOCUMENT: ''
     @ (case filename file of None \<Rightarrow> asc ''None'' | Some n \<Rightarrow> n)
     @ asc '' ---'' @ [10] @ text"

text \<open>
  Step 2, lines 242 to 253. \<open>aupdate_state\<close> writes the key \<open>pdf_context\<close> and leaves
  the other keys of the thread as they are. An exception of either call is printed
  and the stored state stays as it was.
\<close>

definition update_memory :: "chat_env \<Rightarrow> checkpoints \<Rightarrow> pystr \<Rightarrow> upload_file \<Rightarrow> pystr \<Rightarrow> checkpoints" where
  "update_memory E store cid file text =
     (case state_fault E GetState of
        Some e \<Rightarrow> store
      | None \<Rightarrow>
          (let existing_pdf_context = (case store cid of None \<Rightarrow> [] | Some st \<Rightarrow> pdf_context st);
               updated_context = existing_pdf_context @ document_block file text
           in case state_fault E UpdateState of
                Some e \<Rightarrow> store
              | None \<Rightarrow>
                  store(cid := Some (case store cid of
                                       None \<Rightarrow> \<lparr>messages = [], summary = [], pdf_context = updated_context\<rparr>
                                     | Some st \<Rightarrow> st\<lparr>pdf_context := updated_context\<rparr>))))"

text \<open>Lines 256 to 263.\<close>

definition system_msg_content :: "pystr \<Rightarrow> pystr \<Rightarrow> pystr" where
  "system_msg_content fname text =
     asc ''[PDF_ATTACHMENT]'' @ [10] @ asc ''Filename: '' @ fname
     @ [10] @ asc ''Size: '' @ str_of_nat (length text)
     @ asc '' chars'' @ [10] @ asc ''---CONTENT---'' @ [10]
     @ str_strip (take 2000 text)
     @ [10] @ asc ''[/PDF_ATTACHMENT]''"

definition no_access_detail :: pystr where
  "no_access_detail =
     asc ''Kh'' @ [244] @ asc ''ng c'' @ [243] @ asc '' quy'' @ [7873] @ asc ''n truy c''
     @ [7853] @ asc ''p '' @ [273] @ asc ''o'' @ [7841] @ asc ''n chat n'' @ [224]
     @ asc ''y''"

text \<open>Lines 289 to 294, the handler of everything that is not an \<open>HTTPException\<close>.\<close>

definition system_error :: "chat_env \<Rightarrow> pystr \<Rightarrow> exn" where
  "system_error E err_msg =
     HTTPException 500
       (asc ''L'' @ [7895] @ asc ''i h'' @ [7879] @ asc '' th'' @ [7889] @ asc ''ng: ''
        @ err_msg @ [10] @ take 200 (format_exc E))"

definition none_table_error :: pystr where
  "none_table_error = [39] @ asc ''NoneType'' @ [39] @ asc '' object has no attribute ''
     @ [39] @ asc ''table'' @ [39]"

definition save_error_label :: pystr where
  "save_error_label = asc ''L'' @ [7895] @ asc ''i l'' @ [432] @ asc ''u Database: ''"

text \<open>
  \<open>upload_pdf\<close>, lines 197 to 294: the response or the \<open>HTTPException\<close> raised, the
  checkpointer and the database afterwards.
\<close>

definition upload_pdf ::
  "chat_env \<Rightarrow> checkpoints \<Rightarrow> database \<Rightarrow> pystr \<Rightarrow> upload_file \<Rightarrow> bool \<Rightarrow> pystr
     \<Rightarrow> (exn + upload_response) \<times> checkpoints \<times> database" where
  "upload_pdf E store db cid file silent uid =
     (let fname = (case filename file of
                     None \<Rightarrow> asc ''unknown.pdf''
                   | Some n \<Rightarrow> if n = [] then asc ''unknown.pdf'' else n)
      in if \<not> supabase E then (Inl (system_error E none_table_error), store, db)
         else (case fault E CheckOwnership of
                 Some e \<Rightarrow> (Inl (system_error E e), store, db)
               | None \<Rightarrow>
                   if \<not> owns db cid uid then (Inl (HTTPException 403 no_access_detail), store, db)
                   else (case read_pdf file of
                           Inl err \<Rightarrow> (Inl err, store, db)
                         | Inr text \<Rightarrow>
                             (let store1 = update_memory E store cid file text;
                                  msg = system_msg_content fname text;
                                  ok = Inr \<lparr>up_status = asc ''success'', up_filename = fname,
                                            up_message = msg, extracted_text = text\<rparr>
                              in if \<not> silent then
                                   (case fault E InsertAttachment of
                                      Some e \<Rightarrow>
                                        (Inl (HTTPException 500 (save_error_label @ e)), store1, db)
                                    | None \<Rightarrow>
                                        (ok, store1,
                                         insert_rows db
                                           [\<lparr>r_conversation_id = cid, r_role = asc ''assistant'',
                                             r_content = StrContent msg, r_created_at = clock E\<rparr>]))
                                 else (ok, store1, db)))))"

section \<open>The streaming session: one turn of \<open>websocket_endpoint\<close> (app/api/v1/chat.py)\<close>

text \<open>
  The outward events, by their \<open>type\<close> field. \<open>token\<close> carries what is put under
  \<open>content\<close>, \<open>end\<close> what is put under \<open>full_content\<close>.
\<close>

datatype ws_event =
    Meta pystr
  | Start
  | Status pystr
  | Token content
  | Error pystr
  | End content

text \<open>
  \<open>manager.send_personal_message\<close>, lines 42 to 47, hands the text to
  \<open>websocket.send_text\<close>. The transport delivers it, or raises
  \<open>WebSocketDisconnect\<close> or \<open>RuntimeError\<close>, which the manager swallows (the event
  is dropped), or raises something else, which leaves the manager. A connection records
  every event handed to it with what became of it; \<open>pending\<close> is what the transport
  will do with the next sends (it delivers once the list is used up).
\<close>

datatype send_outcome = Delivered | Dropped | SendRaises pystr

record connection =
  sends :: "(ws_event \<times> send_outcome) list"
  pending :: "send_outcome list"

definition attempted :: "connection \<Rightarrow> ws_event list" where
  "attempted c = map fst (sends c)"

definition delivered :: "connection \<Rightarrow> ws_event list" where
  "delivered c = map fst (filter (\<lambda>s. snd s = Delivered) (sends c))"

definition send_personal_message :: "ws_event \<Rightarrow> connection \<Rightarrow> pystr option \<times> connection" where
  "send_personal_message ev c =
     (let outcome = (case pending c of [] \<Rightarrow> Delivered | x # xs \<Rightarrow> x);
          c1 = \<lparr>sends = sends c @ [(ev, outcome)], pending = tl (pending c)\<rparr>
      in (case outcome of SendRaises e \<Rightarrow> Some e | Delivered \<Rightarrow> None | Dropped \<Rightarrow> None, c1))"

text \<open>
  The body of the \<open>async for\<close>, lines 426 to 455: what one event of the agent's
  stream is turned into, if anything. A chunk with tool-call fragments is skipped, and
  so is one with \<open>tool_calls\<close> in its \<open>additional_kwargs\<close> and no content; list
  content is joined; an empty fragment is not sent.
\<close>

fun forward :: "stream_event \<Rightarrow> ws_event option" where
  "forward (OnToolStart name) = Some (Status (asc ''Running tool: '' @ name @ asc ''...''))"
| "forward (OnToolEnd name) = None"
| "forward (OnChatModelStream ch) =
     (if tool_call_chunks ch then None
      else if kwargs_tool_calls ch \<and> \<not> truthy (chunk_content ch) then None
      else let fragment = get_text_content (chunk_content ch)
           in if fragment \<noteq> [] then Some (Token (StrContent fragment)) else None)"
| "forward (OtherEvent kind) = None"

record stream_state =
  full_response :: pystr
  tokens_streamed :: nat
  conn :: connection

text \<open>
  A token is added to \<open>full_response\<close> and counted before it is sent (lines 450 to
  455).
\<close>

fun account :: "ws_event \<Rightarrow> stream_state \<Rightarrow> stream_state" where
  "account (Token c) s =
     s\<lparr>full_response := full_response s @ get_text_content c,
       tokens_streamed := Suc (tokens_streamed s)\<rparr>"
| "account ev s = s"

text \<open>
  The loop over the stream, lines 421 to 455. It ends as the stream ends, or with the
  exception of a send that raised.
\<close>

fun consume :: "stream_event list \<Rightarrow> ending \<Rightarrow> stream_state \<Rightarrow> ending \<times> stream_state" where
  "consume [] e s = (e, s)"
| "consume (ev # evs) e s =
     (case forward ev of
        None \<Rightarrow> consume evs e s
      | Some out \<Rightarrow>
          (let s1 = account out s;
               (err, c1) = send_personal_message out (conn s1);
               s2 = s1\<lparr>conn := c1\<rparr>
           in case err of
                Some x \<Rightarrow> (RaisesException x, s2)
              | None \<Rightarrow> consume evs e s2))"

text \<open>
  The fallback of lines 457 to 474, after a stream that completed. It runs when nothing
  was streamed; it reads the final state and, when the last message has content, makes
  it the full response and sends it as one token. An exception while reading the state
  or sending is printed and swallowed. The result is \<open>full_response\<close> and the
  connection.
\<close>

definition no_stream_fallback :: "chat_env \<Rightarrow> pystr option \<Rightarrow> stream_state \<Rightarrow> content \<times> connection" where
  "no_stream_fallback E thread s =
     (if tokens_streamed s = 0 \<and> full_response s = [] then
        (case agent_aget_state E thread of
           Inl fallback_err \<Rightarrow> (StrContent (full_response s), conn s)
         | Inr None \<Rightarrow> (StrContent (full_response s), conn s)
         | Inr (Some msgs) \<Rightarrow>
             if msgs \<noteq> [] \<and> truthy (msg_content (last msgs)) then
               (let c = msg_content (last msgs);
                    (err, c1) = send_personal_message (Token c) (conn s)
                in (c, c1))
             else (StrContent (full_response s), conn s))
      else (StrContent (full_response s), conn s))"

text \<open>
  Lines 353 to 370: the history for the agent. The ownership of a conversation given at
  connection time was checked once, before the loop (lines 330 to 342).
\<close>

definition ws_history :: "chat_env \<Rightarrow> database \<Rightarrow> pystr option \<Rightarrow> pystr \<Rightarrow> (pystr \<times> content) list" where
  "ws_history E db conversation_id data =
     (let history_messages =
            (case conversation_id of
               None \<Rightarrow> []
             | Some cid \<Rightarrow>
                 if cid \<noteq> [] \<and> supabase E then
                   (case fault E FetchMessages of
                      Some history_err \<Rightarrow> []
                    | None \<Rightarrow> fetch_messages db cid)
                 else [])
      in history_messages @ [(asc ''user'', StrContent data)])"

text \<open>
  Lines 372 to 393: without a conversation, one is created and its id is sent as
  \<open>meta\<close>. The whole block is inside one \<open>try\<close>: an exception of the insert or of
  the send is printed, and the id, once assigned, stays.
\<close>

definition create_conversation ::
  "chat_env \<Rightarrow> database \<Rightarrow> pystr \<Rightarrow> pystr \<Rightarrow> pystr option \<Rightarrow> connection
     \<Rightarrow> pystr option \<times> database \<times> connection" where
  "create_conversation E db uid data conversation_id c =
     (if \<not> present conversation_id \<and> supabase E then
        (case fault E InsertConversation of
           Some e \<Rightarrow> (conversation_id, db, c)
         | None \<Rightarrow>
             (case assigned_id E of
                None \<Rightarrow> (conversation_id, db, c)
              | Some new_id \<Rightarrow>
                  (let db1 = insert_conversation db
                               \<lparr>c_id = new_id, c_user_id = uid, c_title = take 50 data,
                                c_updated_at = None\<rparr>;
                       (err, c1) = send_personal_message (Meta new_id) c
                   in (Some new_id, db1, c1))))
      else (conversation_id, db, c))"

text \<open>Lines 395 to 406.\<close>

definition save_user_message :: "chat_env \<Rightarrow> database \<Rightarrow> pystr option \<Rightarrow> pystr \<Rightarrow> database" where
  "save_user_message E db conversation_id data =
     (case conversation_id of
        None \<Rightarrow> db
      | Some cid \<Rightarrow>
          if cid \<noteq> [] \<and> supabase E then
            (case fault E InsertUserMessage of
               Some e \<Rightarrow> db
             | None \<Rightarrow>
                 insert_rows db [\<lparr>r_conversation_id = cid, r_role = asc ''user'',
                                  r_content = StrContent data, r_created_at = clock E\<rparr>])
          else db)"

text \<open>Lines 497 to 515.\<close>

definition save_assistant_message :: "chat_env \<Rightarrow> database \<Rightarrow> pystr option \<Rightarrow> content \<Rightarrow> database" where
  "save_assistant_message E db conversation_id answer =
     (case conversation_id of
        None \<Rightarrow> db
      | Some cid \<Rightarrow>
          if cid \<noteq> [] \<and> supabase E then
            (case fault E InsertAssistantMessage of
               Some e \<Rightarrow> db
             | None \<Rightarrow>
                 (let db1 = insert_rows db [\<lparr>r_conversation_id = cid, r_role = asc ''assistant'',
                                             r_content = answer, r_created_at = clock E\<rparr>]
                  in case fault E UpdateTimestamp of
                       Some e \<Rightarrow> db1
                     | None \<Rightarrow> update_timestamp db1 cid (utcnow E)))
          else db)"

definition ai_error_label :: pystr where
  "ai_error_label =
     asc ''L'' @ [7895] @ asc ''i h'' @ [7879] @ asc '' th'' @ [7889] @ asc ''ng AI: ''"

text \<open>
  Step 3, lines 409 to 485: \<open>start\<close>, the stream, the fallback, and the two handlers.
  The result says how the block was left: by falling through to step 4 with the full
  response (\<open>Inr\<close>), or otherwise (\<open>Inl\<close>): \<open>True\<close> when the session goes on with
  the next message (\<open>continue\<close>), \<open>False\<close> when the function is left.
\<close>

definition stream_agent ::
  "chat_env \<Rightarrow> pystr option \<Rightarrow> (pystr \<times> content) list \<Rightarrow> connection \<Rightarrow> (bool + content) \<times> connection" where
  "stream_agent E thread history c =
     (let (err, c1) = send_personal_message Start c;
          (evs, e) = agent_astream_events E thread history;
          (ended, s) =
             (case err of
                Some x \<Rightarrow> (RaisesException x, \<lparr>full_response = [], tokens_streamed = 0, conn = c1\<rparr>)
              | None \<Rightarrow> consume evs e \<lparr>full_response = [], tokens_streamed = 0, conn = c1\<rparr>)
      in case ended of
           Completed \<Rightarrow>
             (let (answer, c2) = no_stream_fallback E thread s in (Inr answer, c2))
         | RaisesDisconnect \<Rightarrow> (Inl False, conn s)
         | RaisesException graph_err \<Rightarrow>
             (let (err2, c2) = send_personal_message (Error (ai_error_label @ take 100 graph_err)) (conn s)
              in (Inl (err2 = None), c2)))"

text \<open>
  One iteration of the \<open>while True\<close> loop, from the received text to the end of step
  5. An exception that reaches the outermost \<open>try\<close> (a send of \<open>error\<close> or \<open>end\<close>
  that raises, or the log write of line 489) ends the session.
\<close>

record turn =
  goes_on :: bool
  turn_conn :: connection
  turn_db :: database
  turn_conversation_id :: "pystr option"
  turn_call :: "pystr option \<times> (pystr \<times> content) list"

definition ws_turn ::
  "chat_env \<Rightarrow> database \<Rightarrow> pystr \<Rightarrow> pystr option \<Rightarrow> pystr \<Rightarrow> connection \<Rightarrow> turn" where
  "ws_turn E db uid conversation_id data c =
     (let history_messages = ws_history E db conversation_id data;
          (conversation_id1, db1, c1) = create_conversation E db uid data conversation_id c;
          db2 = save_user_message E db1 conversation_id1 data;
          call = (conversation_id1, history_messages);
          (left, c2) = stream_agent E conversation_id1 history_messages c1
      in case left of
           Inl again \<Rightarrow>
             \<lparr>goes_on = again, turn_conn = c2, turn_db = db2,
              turn_conversation_id = conversation_id1, turn_call = call\<rparr>
         | Inr answer \<Rightarrow>
             (case log_fault E of
                Some e \<Rightarrow>
                  \<lparr>goes_on = False, turn_conn = c2, turn_db = db2,
                   turn_conversation_id = conversation_id1, turn_call = call\<rparr>
              | None \<Rightarrow>
                  (let (err, c3) = send_personal_message (End answer) c2
                   in case err of
                        Some e \<Rightarrow>
                          \<lparr>goes_on = False, turn_conn = c3, turn_db = db2,
                           turn_conversation_id = conversation_id1, turn_call = call\<rparr>
                      | None \<Rightarrow>
                          \<lparr>goes_on = True, turn_conn = c3,
                           turn_db = save_assistant_message E db2 conversation_id1 answer,
                           turn_conversation_id = conversation_id1, turn_call = call\<rparr>)))"

text \<open>
  The pattern that the specification states for the events of one turn,
  \<open>meta? start (status|token)* (end|error)\<close>, as a recogniser.
\<close>

fun is_mid :: "ws_event \<Rightarrow> bool" where
  "is_mid (Status x) = True"
| "is_mid (Token x) = True"
| "is_mid ev = False"

fun is_terminal :: "ws_event \<Rightarrow> bool" where
  "is_terminal (End x) = True"
| "is_terminal (Error x) = True"
| "is_terminal ev = False"

fun after_start :: "ws_event list \<Rightarrow> bool" where
  "after_start [] = False"
| "after_start [ev] = is_terminal ev"
| "after_start (ev # ev2 # evs) = (is_mid ev \<and> after_start (ev2 # evs))"

fun turn_grammar :: "ws_event list \<Rightarrow> bool" where
  "turn_grammar (Meta i # Start # evs) = after_start evs"
| "turn_grammar (Start # evs) = after_start evs"
| "turn_grammar evs = False"

section \<open>Example surroundings for evaluation\<close>

text \<open>
  Surroundings in which nothing fails: the database is configured and answers, the log
  file can be written, the agent answers with one assistant message.
\<close>

definition quiet_env :: chat_env where
  "quiet_env =
     \<lparr>supabase = True, fault = (\<lambda>call. None), assigned_id = Some (asc ''c2''), clock = 100,
      utcnow = asc ''2024-01-01T00:00:00'', log_fault = None,
      agent_ainvoke = (\<lambda>thread history. Inr [AIMessage (StrContent (asc ''answer'')) []]),
      agent_astream_events = (\<lambda>thread history. ([], Completed)),
      agent_aget_state = (\<lambda>thread. Inr (Some [AIMessage (StrContent (asc ''answer'')) []])),
      state_fault = (\<lambda>call. None), format_exc = []\<rparr>"

text \<open>A database with one conversation, \<open>c1\<close>, owned by \<open>alice\<close>, and no messages.\<close>

definition alice_db :: database where
  "alice_db =
     \<lparr>conversations = [\<lparr>c_id = asc ''c1'', c_user_id = asc ''alice'', c_title = asc ''t'',
                         c_updated_at = None\<rparr>],
      message_rows = []\<rparr>"

text \<open>
  The same conversation after 21 messages \<open>m1\<close>, ..., \<open>m21\<close>, stored at the times
  1, ..., 21.
\<close>

definition long_db :: database where
  "long_db =
     alice_db\<lparr>message_rows :=
       map (\<lambda>i. \<lparr>r_conversation_id = asc ''c1'', r_role = asc ''user'',
                  r_content = StrContent (asc ''m'' @ str_of_nat i), r_created_at = i\<rparr>)
           [1, 2, 3, 4, 5, 6, 7, 8, 9, 10, 11, 12, 13, 14, 15, 16, 17, 18, 19, 20, 21]\<rparr>"

text \<open>
  An agent run that starts a tool and then streams an answer in two fragments, after a
  chunk that carries only tool-call fragments.
\<close>

definition streaming_env :: chat_env where
  "streaming_env =
     quiet_env\<lparr>agent_astream_events := (\<lambda>thread history.
       ([OnChatModelStream \<lparr>tool_call_chunks = True, kwargs_tool_calls = False,
                            chunk_content = StrContent []\<rparr>,
         OnToolStart (asc ''legal_assistant''),
         OnToolEnd (asc ''legal_assistant''),
         OnChatModelStream \<lparr>tool_call_chunks = False, kwargs_tool_calls = False,
                            chunk_content = StrContent (asc ''Xin'')\<rparr>,
         OnChatModelStream \<lparr>tool_call_chunks = False, kwargs_tool_calls = False,
                            chunk_content = ListContent [DictPart (Some (asc '' chao''))]\<rparr>],
        Completed))\<rparr>"

text \<open>
  An agent run that starts a tool and streams no fragment; the final state holds the
  answer.
\<close>

definition silent_env :: chat_env where
  "silent_env =
     quiet_env\<lparr>agent_astream_events := (\<lambda>thread history.
       ([OnToolStart (asc ''legal_assistant''), OnToolEnd (asc ''legal_assistant'')],
        Completed))\<rparr>"

text \<open>Two one-page documents.\<close>

definition first_pdf :: upload_file where
  "first_pdf = \<lparr>filename = Some (asc ''a.pdf''), pages = Inr [Some (asc ''one'')]\<rparr>"

definition second_pdf :: upload_file where
  "second_pdf = \<lparr>filename = Some (asc ''b.pdf''), pages = Inr [Some (asc ''two'')]\<rparr>"

section \<open>Properties\<close>

subsection \<open>Evaluation of decimal rendering\<close>

lemma str_of_nat_numeral [simp]:
  "str_of_nat (numeral k) = (if (numeral k :: nat) < 10 then [48 + numeral k]
     else str_of_nat (numeral k div 10) @ [48 + numeral k mod 10])"
  by (rule str_of_nat.simps)

lemma str_of_nat_small [simp]:
  "str_of_nat 0 = [48]" "str_of_nat 1 = [49]" "str_of_nat (Suc 0) = [49]"
  by (simp_all add: str_of_nat.simps)

subsection \<open>The routing decision\<close>

text \<open>
  C1 (tool-call ceiling). When more than 4 of the messages before the latest response
  carry tool calls, \<open>should_continue\<close> returns \<open>END\<close>, whether or not the latest
  response requests tool calls. The instance after it is a history with exactly 5 such messages
  followed by a response that requests a tool.
\<close>

theorem should_continue_ceiling:
  assumes "length (filter has_tool_calls prior) > 4"
  shows "should_continue \<lparr>messages = prior @ [response], summary = s, pdf_context = p\<rparr> = END"
  using assms by (simp add: should_continue_def Let_def)

theorem should_continue_ceiling_witness:
  "length (filter has_tool_calls
      (replicate 5 (AIMessage (StrContent []) [\<lparr>tc_name = asc ''web_search'', tc_args = []\<rparr>]))) > 4 \<and>
   has_tool_calls (AIMessage (StrContent []) [\<lparr>tc_name = asc ''legal_assistant'', tc_args = []\<rparr>]) \<and>
   should_continue \<lparr>messages =
      replicate 5 (AIMessage (StrContent []) [\<lparr>tc_name = asc ''web_search'', tc_args = []\<rparr>])
        @ [AIMessage (StrContent []) [\<lparr>tc_name = asc ''legal_assistant'', tc_args = []\<rparr>]],
      summary = [], pdf_context = []\<rparr> = END"
  using should_continue_ceiling
    [of "replicate 5 (AIMessage (StrContent []) [\<lparr>tc_name = asc ''web_search'', tc_args = []\<rparr>])"
        "AIMessage (StrContent []) [\<lparr>tc_name = asc ''legal_assistant'', tc_args = []\<rparr>]" "[]" "[]"]
  by (simp add: numeral_eq_Suc)

text \<open>
  The count is taken over the whole list, so a response that requests a tool is itself
  counted: after 4 earlier tool-call messages a fifth request already ends the loop.
\<close>

lemma should_continue_counts_latest:
  assumes "length (filter has_tool_calls prior) = 4" and "has_tool_calls response"
  shows "should_continue \<lparr>messages = prior @ [response], summary = s, pdf_context = p\<rparr> = END"
  using assms by (simp add: should_continue_def Let_def)

subsection \<open>The model fallback chain\<close>

lemma invoked_append: "invoked (xs @ ys) = invoked xs @ invoked ys"
  by (induction xs rule: invoked.induct) simp_all

lemma invoked_failure_log: "invoked (failure_log B n e) = []"
  by (simp add: failure_log_def Let_def)

lemma try_models_all_fail:
  "\<forall>b\<in>set bs. isl (ainvoke (snd b) fm) \<Longrightarrow>
     snd (try_models B fm bs le) = [AIMessage (StrContent apology) []]"
proof (induction bs arbitrary: le)
  case Nil
  show ?case by simp
next
  case (Cons b bs)
  obtain n m where b: "b = (n, m)" by (cases b)
  from Cons.prems b obtain e where e: "ainvoke m fm = Inl e"
    by (cases "ainvoke m fm") auto
  from Cons.prems have "\<forall>b\<in>set bs. isl (ainvoke (snd b) fm)" by simp
  from Cons.IH[OF this] show ?case
    by (simp add: b e Let_def split_beta)
qed

lemma try_models_first_success:
  "\<forall>b\<in>set pre. isl (ainvoke (snd b) fm) \<Longrightarrow> h fm = Inr r \<Longrightarrow>
     snd (try_models B fm (pre @ (n, Some h) # post) le) = [r] \<and>
     invoked (fst (try_models B fm (pre @ (n, Some h) # post) le))
       = map fst (filter (\<lambda>b. snd b \<noteq> None) pre) @ [n]"
proof (induction pre arbitrary: le)
  case Nil
  then show ?case by (simp add: invoked_append)
next
  case (Cons b pre)
  obtain k m where b: "b = (k, m)" by (cases b)
  from Cons.prems b obtain e where e: "ainvoke m fm = Inl e"
    by (cases "ainvoke m fm") auto
  from Cons.prems have "\<forall>b\<in>set pre. isl (ainvoke (snd b) fm)" by simp
  from Cons.IH[OF this Cons.prems(2)] e show ?case
    by (cases m) (simp_all add: b Let_def split_beta invoked_append invoked_failure_log)
qed

text \<open>
  C3 (all-fail safety). \<open>call_model\<close> has no raising path: every exception of a
  backend is caught inside the loop, so the model is a total function. When every
  backend of the chain fails (a missing Gemini handle fails at the attribute access),
  the update it returns is the fixed apology as one assistant message without tool calls.
\<close>

theorem call_model_all_fail:
  assumes "\<forall>b\<in>set (models_to_try ms). isl (ainvoke (snd b) (formatted_messages state))"
  shows "snd (call_model B ms state) = [AIMessage (StrContent apology) []]"
  using assms unfolding call_model_def by (rule try_models_all_fail)

theorem call_model_all_fail_witness:
  "(let ms = \<lparr>llama_70b_with_tools = (\<lambda>fm. Inl (asc ''model not found'')),
              llama_8b_with_tools = (\<lambda>fm. Inl (asc ''429 rate limit'')),
              gemini_with_tools = None\<rparr>;
        st = \<lparr>messages = [HumanMessage (StrContent (asc ''hi''))], summary = [], pdf_context = []\<rparr>
    in list_all (\<lambda>b. isl (ainvoke (snd b) (formatted_messages st))) (models_to_try ms) \<and>
       snd (call_model ascii_builtins ms st) = [AIMessage (StrContent apology) []])"
  using call_model_all_fail [of
     "\<lparr>llama_70b_with_tools = (\<lambda>fm. Inl (asc ''model not found'')),
              llama_8b_with_tools = (\<lambda>fm. Inl (asc ''429 rate limit'')),
              gemini_with_tools = None\<rparr>"
     "\<lparr>messages = [HumanMessage (StrContent (asc ''hi''))], summary = [], pdf_context = []\<rparr>"
     "ascii_builtins"]
  by (simp add: models_to_try_def Let_def)

lemma models_to_try_prefix_handles:
  assumes "models_to_try ms = pre @ x # post"
  shows "filter (\<lambda>b. snd b \<noteq> None) pre = pre"
proof -
  have "length pre \<le> 2" using arg_cong[OF assms, of length] by (simp add: models_to_try_def)
  then consider "pre = []" | a where "pre = [a]" | a b where "pre = [a, b]"
    by (cases pre; cases "tl pre"; cases "tl (tl pre)") auto
  then show ?thesis
    using assms by cases (auto simp: models_to_try_def)
qed

text \<open>
  C4 (fallback ordering). The chain is Llama 3.3 70B, Llama 3.1 8B, Gemini, in that
  order. If the backends before some backend all fail, whatever the error, and that
  backend succeeds, \<open>call_model\<close> returns its response, and the backends invoked are
  exactly the failing ones followed by the successful one, each once and in chain
  order; nothing after the successful backend is invoked.
\<close>

theorem call_model_fallback_order:
  assumes "models_to_try ms = pre @ (name, Some h) # post"
      and "\<forall>b\<in>set pre. isl (ainvoke (snd b) (formatted_messages state))"
      and "h (formatted_messages state) = Inr response"
  shows "map fst (models_to_try ms)
           = [asc ''Llama 3.3 70B'', asc ''Llama 3.1 8B'', asc ''Gemini 2.5 Flash''] \<and>
         snd (call_model B ms state) = [response] \<and>
         invoked (fst (call_model B ms state)) = map fst pre @ [name]"
proof -
  have names: "map fst (models_to_try ms)
           = [asc ''Llama 3.3 70B'', asc ''Llama 3.1 8B'', asc ''Gemini 2.5 Flash'']"
    by (simp add: models_to_try_def)
  have pre: "filter (\<lambda>b. snd b \<noteq> None) pre = pre"
    using assms(1) by (rule models_to_try_prefix_handles)
  from try_models_first_success[of pre "formatted_messages state" h response B name post None]
    assms(2,3) pre
  have "snd (call_model B ms state) = [response] \<and>
        invoked (fst (call_model B ms state)) = map fst pre @ [name]"
    by (simp add: call_model_def assms(1))
  with names show ?thesis by simp
qed

theorem call_model_fallback_order_witness:
  "snd (call_model ascii_builtins
          \<lparr>llama_70b_with_tools = (\<lambda>fm. Inl (asc ''model not found'')),
           llama_8b_with_tools = (\<lambda>fm. Inl (asc ''429 rate limit'')),
           gemini_with_tools = Some (\<lambda>fm. Inr (AIMessage (StrContent (asc ''ok'')) []))\<rparr>
          \<lparr>messages = [HumanMessage (StrContent (asc ''hi''))], summary = [], pdf_context = []\<rparr>)
     = [AIMessage (StrContent (asc ''ok'')) []] \<and>
   invoked (fst (call_model ascii_builtins
          \<lparr>llama_70b_with_tools = (\<lambda>fm. Inl (asc ''model not found'')),
           llama_8b_with_tools = (\<lambda>fm. Inl (asc ''429 rate limit'')),
           gemini_with_tools = Some (\<lambda>fm. Inr (AIMessage (StrContent (asc ''ok'')) []))\<rparr>
          \<lparr>messages = [HumanMessage (StrContent (asc ''hi''))], summary = [], pdf_context = []\<rparr>))
     = [asc ''Llama 3.3 70B'', asc ''Llama 3.1 8B'', asc ''Gemini 2.5 Flash'']"
  using call_model_fallback_order [of
     "\<lparr>llama_70b_with_tools = (\<lambda>fm. Inl (asc ''model not found'')),
       llama_8b_with_tools = (\<lambda>fm. Inl (asc ''429 rate limit'')),
       gemini_with_tools = Some (\<lambda>fm. Inr (AIMessage (StrContent (asc ''ok'')) []))\<rparr>"
     "[(asc ''Llama 3.3 70B'', Some (\<lambda>fm. Inl (asc ''model not found''))),
       (asc ''Llama 3.1 8B'', Some (\<lambda>fm. Inl (asc ''429 rate limit'')))]"
     "asc ''Gemini 2.5 Flash''" "\<lambda>fm. Inr (AIMessage (StrContent (asc ''ok'')) [])" "[]"
     "\<lparr>messages = [HumanMessage (StrContent (asc ''hi''))], summary = [], pdf_context = []\<rparr>"
     "AIMessage (StrContent (asc ''ok'')) []" "ascii_builtins"]
  by (simp add: models_to_try_def)

subsection \<open>The retrieval gateway\<close>

lemma str_in_prefix: "str_in xs (xs @ ys)"
  unfolding str_in_def by (rule prefix_imp_sublist) simp

lemma marker_in_no_match_text: "str_in fallback_marker (no_match_text query)"
  unfolding no_match_text_def append_assoc by (rule str_in_prefix)

lemma marker_in_vector_error_text: "str_in fallback_marker vector_error_text"
  unfolding vector_error_text_def append_assoc by (rule str_in_prefix)

lemma marker_not_in_index_unavailable_text:
  "\<not> str_in fallback_marker index_unavailable_text"
  by (simp add: str_in_def fallback_marker_def index_unavailable_text_def asc_def sublist_code)

text \<open>
  Every exit of the vector search: the text carries the tag, or matches were found, or
  \<open>get_index()\<close> gave \<open>None\<close> after the embedder was obtained, and then the text is
  the one of line 310.
\<close>

lemma vector_search_outcomes:
  "str_in fallback_marker (vector_search B R query sq)
   \<or> (\<exists>ms. ms \<noteq> [] \<and> vector_search B R query sq = found_text B ms)
   \<or> (get_index R = Inr None \<and> \<not> isl (embeddings R)
        \<and> vector_search B R query sq = index_unavailable_text)"
  by (auto simp: vector_search_def marker_in_no_match_text marker_in_vector_error_text
           split: sum.splits option.splits)

lemma abc_normalised: "str_strip (ascii_lower (asc ''abc'')) = asc ''abc''"
  by (simp add: str_strip_def ascii_lower_def asc_def isspace_def)

lemma match_key_abc: "match_key (asc ''abc'') = None"
  by (simp add: match_key_def key_map_def str_in_def sublist_code asc_def)

text \<open>
  C2 (fallback-signal propagation), at the input where the code departs from it. No
  Pinecone API key is configured, so \<open>get_index()\<close> returns \<open>None\<close>; the query
  \<open>abc\<close> matches no knowledge-base keyword and reaches the vector search. The tool
  returns the text of line 310, which does not contain \<open>[FALLBACK_SIGNAL]\<close>.
\<close>

theorem legal_assistant_unconfigured_index:
  "legal_assistant ascii_builtins
     \<lparr>fast_llm = Inr None, embeddings = Inr (\<lambda>q. Inr []), get_index = Inr None\<rparr>
     (asc ''abc'') = index_unavailable_text \<and>
   \<not> str_in fallback_marker
     (legal_assistant ascii_builtins
        \<lparr>fast_llm = Inr None, embeddings = Inr (\<lambda>q. Inr []), get_index = Inr None\<rparr>
        (asc ''abc''))"
proof -
  have "legal_assistant ascii_builtins
     \<lparr>fast_llm = Inr None, embeddings = Inr (\<lambda>q. Inr []), get_index = Inr None\<rparr>
     (asc ''abc'') = index_unavailable_text"
    by (simp add: legal_assistant_def ascii_builtins_def abc_normalised match_key_abc
        vector_search_def)
  then show ?thesis by (simp add: marker_not_in_index_unavailable_text)
qed

subsection \<open>The fee lookup\<close>

text \<open>
  C10. The result of \<open>calculate_fee\<close> depends on \<open>service\<close> only: two calls that
  differ in \<open>details\<close> alone return the same text, for the fee table as for the
  not-found answer.
\<close>

theorem calculate_fee_ignores_details:
  "calculate_fee B service d1 = calculate_fee B service d2"
  by (simp add: calculate_fee_def)

text \<open>Two evaluations: a service of the table, and one that is not in it.\<close>

lemma calculate_fee_visa:
  "calculate_fee ascii_builtins (asc ''Xin VISA'') details
     = asc ''### L'' @ [7879] @ asc '' ph'' @ [237] @ asc '': VISA'' @ [10, 10]
       @ asc ''- **E-visa 30 ng'' @ [224] @ asc ''y (nh'' @ [7853] @ asc ''p c'' @ [7843]
       @ asc ''nh 1 l'' @ [7847] @ asc ''n):** 25 USD'' @ [10]
       @ asc ''- **Visa 90 ng'' @ [224] @ asc ''y (nh'' @ [7853] @ asc ''p c'' @ [7843]
       @ asc ''nh nhi'' @ [7873] @ asc ''u l'' @ [7847] @ asc ''n):** 50 USD'' @ [10]
       @ asc ''- **Th'' @ [7867] @ asc '' t'' @ [7841] @ asc ''m tr'' @ [250]
       @ asc '' (1-3 n'' @ [259] @ asc ''m):** 145 - 155 USD'' @ [10]
       @ fee_note"
  by (simp add: calculate_fee_def ascii_builtins_def ascii_lower_def ascii_upper_def
      fee_table_def str_in_def sublist_code asc_def)

lemma calculate_fee_unknown:
  "calculate_fee ascii_builtins (asc ''abc'') details = fee_not_found (asc ''abc'')"
  by (simp add: calculate_fee_def ascii_builtins_def ascii_lower_def
      fee_table_def str_in_def sublist_code asc_def)

subsection \<open>The synchronous endpoint\<close>

lemma fetch_long: "fetch_messages long_db (asc ''c1'')
   = map (\<lambda>i. (asc ''user'', StrContent (asc ''m'' @ str_of_nat i))) [1, 2, 3, 4, 5, 6, 7, 8, 9, 10, 11, 12, 13, 14, 15, 16, 17, 18, 19, 20]"
  by (simp add: fetch_messages_def long_db_def alice_db_def asc_def)

lemma owns_alice: "owns long_db (asc ''c1'') (asc ''alice'')"
  by (simp add: owns_def long_db_def alice_db_def asc_def)

text \<open>
  C8 (bounded history window), at the input where the code departs from it. The
  conversation \<open>c1\<close> of \<open>alice\<close> holds 21 messages. The history handed to the agent
  is \<open>m1\<close>, ..., \<open>m20\<close>, the 20 oldest, followed by the new user message; the most
  recent stored message \<open>m21\<close> is not in it. The query orders by \<open>created_at\<close>
  ascending and then limits to 20.
\<close>

theorem history_window_keeps_oldest:
  "chat_history quiet_env long_db (asc ''alice'') (Some (asc ''c1'')) (asc ''q'')
     = map (\<lambda>i. (asc ''user'', StrContent (asc ''m'' @ str_of_nat i))) [1, 2, 3, 4, 5, 6, 7, 8, 9, 10, 11, 12, 13, 14, 15, 16, 17, 18, 19, 20]
       @ [(asc ''user'', StrContent (asc ''q''))] \<and>
   (asc ''user'', StrContent (asc ''m21''))
     \<notin> set (chat_history quiet_env long_db (asc ''alice'') (Some (asc ''c1'')) (asc ''q'')) \<and>
   (asc ''user'', StrContent (asc ''m1''))
     \<in> set (chat_history quiet_env long_db (asc ''alice'') (Some (asc ''c1'')) (asc ''q''))"
proof -
  have h: "chat_history quiet_env long_db (asc ''alice'') (Some (asc ''c1'')) (asc ''q'')
     = map (\<lambda>i. (asc ''user'', StrContent (asc ''m'' @ str_of_nat i))) [1, 2, 3, 4, 5, 6, 7, 8, 9, 10, 11, 12, 13, 14, 15, 16, 17, 18, 19, 20]
       @ [(asc ''user'', StrContent (asc ''q''))]"
    using owns_alice
    by (simp add: chat_history_def verify_and_fetch_def quiet_env_def fetch_long)
       (simp add: asc_def)
  show ?thesis unfolding h by (simp add: asc_def)
qed

lemma server_error_500: "\<exists>d. server_error B e = HTTPException 500 d"
  by (simp add: server_error_def)

lemma chat_endpoint_status:
  "fst (chat_endpoint B E db uid message conversation_id) = Inl err \<Longrightarrow>
     \<exists>d. err = HTTPException 500 d"
  using server_error_500
  by (auto simp: chat_endpoint_def Let_def split_beta split: sum.splits if_splits option.splits)

lemma save_exchange_existing:
  assumes "supabase E" and "cid \<noteq> []" and "fault E InsertBothMessages = None"
  shows "fst (save_exchange E db uid message (Some cid) answer) = Some cid \<and>
         message_rows (snd (save_exchange E db uid message (Some cid) answer))
           = message_rows db
             @ [\<lparr>r_conversation_id = cid, r_role = asc ''user'',
                 r_content = StrContent message, r_created_at = clock E\<rparr>,
                \<lparr>r_conversation_id = cid, r_role = asc ''assistant'',
                 r_content = StrContent answer, r_created_at = clock E\<rparr>]"
  using assms
  by (auto simp: save_exchange_def Let_def insert_rows_def update_timestamp_def split: option.splits)

text \<open>
  C9. In \<open>chat_endpoint\<close>, when the ownership check or the history query raises (the
  403 for a conversation of another user included), the handler of the inner \<open>try\<close>
  catches it: the agent is invoked on that thread with the new user message alone, no
  403 leaves the function, and when the agent answers and the insert and the log write
  succeed, the response is returned and both messages are appended under the supplied
  conversation id.
\<close>

theorem chat_endpoint_swallows_denial:
  assumes "supabase E" and "cid \<noteq> []"
      and "verify_and_fetch E db uid cid = Inl err"
  shows "snd (snd (chat_endpoint B E db uid message (Some cid)))
           = [(Some cid, [(asc ''user'', StrContent message)])] \<and>
         (\<forall>detail. fst (chat_endpoint B E db uid message (Some cid))
                     \<noteq> Inl (HTTPException 403 detail)) \<and>
         (\<forall>out. agent_ainvoke E (Some cid) [(asc ''user'', StrContent message)] = Inr out \<and> out \<noteq> []
                 \<and> fault E InsertBothMessages = None \<and> log_fault E = None \<longrightarrow>
            fst (chat_endpoint B E db uid message (Some cid))
              = Inr \<lparr>cr_response = get_text_content (msg_content (last out)),
                     cr_conversation_id = Some cid\<rparr> \<and>
            message_rows (fst (snd (chat_endpoint B E db uid message (Some cid))))
              = message_rows db
                @ [\<lparr>r_conversation_id = cid, r_role = asc ''user'',
                    r_content = StrContent message, r_created_at = clock E\<rparr>,
                   \<lparr>r_conversation_id = cid, r_role = asc ''assistant'',
                    r_content = StrContent (get_text_content (msg_content (last out))),
                    r_created_at = clock E\<rparr>])"
proof -
  have hist: "chat_history E db uid (Some cid) message = [(asc ''user'', StrContent message)]"
    using assms by (simp add: chat_history_def)
  have calls: "snd (snd (chat_endpoint B E db uid message (Some cid)))
           = [(Some cid, [(asc ''user'', StrContent message)])]"
    by (simp add: chat_endpoint_def Let_def split_beta hist split: sum.splits option.splits)
  have no403: "\<forall>detail. fst (chat_endpoint B E db uid message (Some cid))
                     \<noteq> Inl (HTTPException 403 detail)"
    using chat_endpoint_status[of B E db uid message "Some cid"] by fastforce
  have saved: "\<forall>out. agent_ainvoke E (Some cid) [(asc ''user'', StrContent message)] = Inr out \<and> out \<noteq> []
                 \<and> fault E InsertBothMessages = None \<and> log_fault E = None \<longrightarrow>
            fst (chat_endpoint B E db uid message (Some cid))
              = Inr \<lparr>cr_response = get_text_content (msg_content (last out)),
                     cr_conversation_id = Some cid\<rparr> \<and>
            message_rows (fst (snd (chat_endpoint B E db uid message (Some cid))))
              = message_rows db
                @ [\<lparr>r_conversation_id = cid, r_role = asc ''user'',
                    r_content = StrContent message, r_created_at = clock E\<rparr>,
                   \<lparr>r_conversation_id = cid, r_role = asc ''assistant'',
                    r_content = StrContent (get_text_content (msg_content (last out))),
                    r_created_at = clock E\<rparr>]"
  proof (intro allI impI)
    fix out
    assume a: "agent_ainvoke E (Some cid) [(asc ''user'', StrContent message)] = Inr out \<and> out \<noteq> []
                 \<and> fault E InsertBothMessages = None \<and> log_fault E = None"
    from save_exchange_existing[OF assms(1,2), of db uid message "get_text_content (msg_content (last out))"] a
    show "fst (chat_endpoint B E db uid message (Some cid))
              = Inr \<lparr>cr_response = get_text_content (msg_content (last out)),
                     cr_conversation_id = Some cid\<rparr> \<and>
            message_rows (fst (snd (chat_endpoint B E db uid message (Some cid))))
              = message_rows db
                @ [\<lparr>r_conversation_id = cid, r_role = asc ''user'',
                    r_content = StrContent message, r_created_at = clock E\<rparr>,
                   \<lparr>r_conversation_id = cid, r_role = asc ''assistant'',
                    r_content = StrContent (get_text_content (msg_content (last out))),
                    r_created_at = clock E\<rparr>]"
      by (simp add: chat_endpoint_def Let_def split_beta hist)
  qed
  from calls no403 saved show ?thesis by blast
qed

lemma bob_denied:
  "verify_and_fetch quiet_env alice_db (asc ''bob'') (asc ''c1'')
     = Inl (HTTPException 403 (asc ''Access denied to conversation''))"
  by (simp add: verify_and_fetch_def quiet_env_def owns_def alice_db_def asc_def)

theorem chat_endpoint_swallows_denial_witness:
  "verify_and_fetch quiet_env alice_db (asc ''bob'') (asc ''c1'')
     = Inl (HTTPException 403 (asc ''Access denied to conversation'')) \<and>
   fst (chat_endpoint ascii_builtins quiet_env alice_db (asc ''bob'') (asc ''hi'') (Some (asc ''c1'')))
     = Inr \<lparr>cr_response = asc ''answer'', cr_conversation_id = Some (asc ''c1'')\<rparr> \<and>
   message_rows (fst (snd (chat_endpoint ascii_builtins quiet_env alice_db (asc ''bob'') (asc ''hi'')
                              (Some (asc ''c1'')))))
     = [\<lparr>r_conversation_id = asc ''c1'', r_role = asc ''user'',
         r_content = StrContent (asc ''hi''), r_created_at = 100\<rparr>,
        \<lparr>r_conversation_id = asc ''c1'', r_role = asc ''assistant'',
         r_content = StrContent (asc ''answer''), r_created_at = 100\<rparr>] \<and>
   snd (snd (chat_endpoint ascii_builtins quiet_env alice_db (asc ''bob'') (asc ''hi'') (Some (asc ''c1''))))
     = [(Some (asc ''c1''), [(asc ''user'', StrContent (asc ''hi''))])]"
proof -
  have s: "supabase quiet_env" and c: "asc ''c1'' \<noteq> []"
    by (simp_all add: quiet_env_def asc_def)
  have q: "agent_ainvoke quiet_env (Some (asc ''c1'')) [(asc ''user'', StrContent (asc ''hi''))]
             = Inr [AIMessage (StrContent (asc ''answer'')) []]"
       "fault quiet_env InsertBothMessages = None" "log_fault quiet_env = None"
       "clock quiet_env = 100" "message_rows alice_db = []"
    by (simp_all add: quiet_env_def alice_db_def)
  from chat_endpoint_swallows_denial[OF s c bob_denied, of ascii_builtins "asc ''hi''"] q bob_denied
  show ?thesis by simp
qed

subsection \<open>Document upload\<close>

lemma update_memory_prefix:
  "prefix (stored_pdf_context store cid) (stored_pdf_context (update_memory E store cid file text) cid)"
  by (auto simp: update_memory_def stored_pdf_context_def Let_def split: option.splits)

lemma update_memory_appends:
  assumes "state_fault E GetState = None" and "state_fault E UpdateState = None"
  shows "stored_pdf_context (update_memory E store cid file text) cid
           = stored_pdf_context store cid @ document_block file text"
  using assms by (auto simp: update_memory_def stored_pdf_context_def Let_def split: option.splits)

lemma upload_pdf_store:
  "fst (snd (upload_pdf E store db cid file silent uid)) = store \<or>
   (\<exists>text. read_pdf file = Inr text \<and>
      fst (snd (upload_pdf E store db cid file silent uid)) = update_memory E store cid file text)"
  by (auto simp: upload_pdf_def Let_def split: option.splits sum.splits)

lemma upload_pdf_append_only:
  "prefix (stored_pdf_context store cid)
          (stored_pdf_context (fst (snd (upload_pdf E store db cid file silent uid))) cid)"
  using upload_pdf_store[of E store db cid "file" silent uid] update_memory_prefix[of store cid E "file"]
  by auto

lemma upload_pdf_success:
  assumes "upload_pdf E store db cid file silent uid = (Inr r, store1, db1)"
  shows "read_pdf file = Inr (extracted_text r) \<and>
         store1 = update_memory E store cid file (extracted_text r)"
  using assms by (auto simp: upload_pdf_def Let_def split: option.splits sum.splits if_splits)

text \<open>
  C7 (accumulation of \<open>pdf_context\<close>). After two uploads to the same conversation
  that both succeed, with the checkpointer answering, the stored context is the context
  from before, unchanged, then the block of the first document with its extracted text,
  then the block of the second with its text. (\<open>upload_pdf_append_only\<close> above: the old
  context is a prefix of the new one after any upload, failed ones included.)
\<close>

theorem pdf_context_accumulates:
  assumes "upload_pdf E1 store db cid file1 silent1 uid1 = (Inr r1, store1, db1)"
      and "upload_pdf E2 store1 db1 cid file2 silent2 uid2 = (Inr r2, store2, db2)"
      and "\<forall>c. state_fault E1 c = None" and "\<forall>c. state_fault E2 c = None"
  shows "stored_pdf_context store1 cid
           = stored_pdf_context store cid @ document_block file1 (extracted_text r1) \<and>
         stored_pdf_context store2 cid
           = stored_pdf_context store1 cid @ document_block file2 (extracted_text r2) \<and>
         stored_pdf_context store2 cid
           = stored_pdf_context store cid
             @ [10, 10] @ asc ''--- DOCUMENT: ''
             @ (case filename file1 of None \<Rightarrow> asc ''None'' | Some n \<Rightarrow> n)
             @ asc '' ---'' @ [10] @ extracted_text r1
             @ [10, 10] @ asc ''--- DOCUMENT: ''
             @ (case filename file2 of None \<Rightarrow> asc ''None'' | Some n \<Rightarrow> n)
             @ asc '' ---'' @ [10] @ extracted_text r2"
proof -
  from upload_pdf_success[OF assms(1)] assms(3)
  have 1: "stored_pdf_context store1 cid
           = stored_pdf_context store cid @ document_block file1 (extracted_text r1)"
    by (simp add: update_memory_appends)
  from upload_pdf_success[OF assms(2)] assms(4)
  have 2: "stored_pdf_context store2 cid
           = stored_pdf_context store1 cid @ document_block file2 (extracted_text r2)"
    by (simp add: update_memory_appends)
  from 1 2 show ?thesis by (simp add: document_block_def)
qed

lemma first_upload:
  "upload_pdf quiet_env (\<lambda>thread. None) alice_db (asc ''c1'') first_pdf True (asc ''alice'')
     = (Inr \<lparr>up_status = asc ''success'', up_filename = asc ''a.pdf'',
            up_message = system_msg_content (asc ''a.pdf'') (asc ''one'' @ [10]),
            extracted_text = asc ''one'' @ [10]\<rparr>,
        update_memory quiet_env (\<lambda>thread. None) (asc ''c1'') first_pdf (asc ''one'' @ [10]),
        alice_db)"
  by (simp add: upload_pdf_def quiet_env_def owns_def alice_db_def first_pdf_def read_pdf_def
      str_strip_def isspace_def asc_def Let_def)

lemma second_upload:
  "upload_pdf quiet_env
     (update_memory quiet_env (\<lambda>thread. None) (asc ''c1'') first_pdf (asc ''one'' @ [10]))
     alice_db (asc ''c1'') second_pdf True (asc ''alice'')
     = (Inr \<lparr>up_status = asc ''success'', up_filename = asc ''b.pdf'',
            up_message = system_msg_content (asc ''b.pdf'') (asc ''two'' @ [10]),
            extracted_text = asc ''two'' @ [10]\<rparr>,
        update_memory quiet_env
          (update_memory quiet_env (\<lambda>thread. None) (asc ''c1'') first_pdf (asc ''one'' @ [10]))
          (asc ''c1'') second_pdf (asc ''two'' @ [10]),
        alice_db)"
  by (simp add: upload_pdf_def quiet_env_def owns_def alice_db_def second_pdf_def read_pdf_def
      str_strip_def isspace_def asc_def Let_def)

theorem pdf_context_accumulates_witness:
  "stored_pdf_context
     (fst (snd (upload_pdf quiet_env
        (fst (snd (upload_pdf quiet_env (\<lambda>thread. None) alice_db (asc ''c1'') first_pdf True
                     (asc ''alice''))))
        alice_db (asc ''c1'') second_pdf True (asc ''alice''))))
     (asc ''c1'')
   = [10, 10] @ asc ''--- DOCUMENT: a.pdf ---'' @ [10] @ asc ''one'' @ [10]
     @ [10, 10] @ asc ''--- DOCUMENT: b.pdf ---'' @ [10] @ asc ''two'' @ [10]"
proof -
  have q: "\<forall>c. state_fault quiet_env c = None" by (simp add: quiet_env_def)
  have e: "stored_pdf_context (\<lambda>thread. None) (asc ''c1'') = []"
    by (simp add: stored_pdf_context_def)
  have s: "fst (snd (upload_pdf quiet_env
        (fst (snd (upload_pdf quiet_env (\<lambda>thread. None) alice_db (asc ''c1'') first_pdf True
                     (asc ''alice''))))
        alice_db (asc ''c1'') second_pdf True (asc ''alice'')))
     = update_memory quiet_env
          (update_memory quiet_env (\<lambda>thread. None) (asc ''c1'') first_pdf (asc ''one'' @ [10]))
          (asc ''c1'') second_pdf (asc ''two'' @ [10])"
    by (simp only: first_upload second_upload fst_conv snd_conv)
  note c3 = pdf_context_accumulates[OF first_upload second_upload q q, THEN conjunct2, THEN conjunct2]
  show ?thesis
    unfolding s using c3 e by (simp add: first_pdf_def second_pdf_def asc_def)
qed

subsection \<open>The streaming session\<close>

lemma attempted_send:
  "attempted (snd (send_personal_message ev c)) = attempted c @ [ev]"
  by (simp add: send_personal_message_def attempted_def Let_def)

lemma conn_account: "conn (account ev s) = conn s"
  by (cases ev) simp_all

lemma consume_attempted:
  "\<exists>k. attempted (conn (snd (consume evs e s)))
         = attempted (conn s) @ List.map_filter forward (take k evs)"
proof (induction evs arbitrary: s)
  case Nil
  show ?case by (simp add: List.map_filter_simps)
next
  case (Cons ev evs)
  show ?case
  proof (cases "forward ev")
    case None
    from Cons.IH[of s] obtain k where
      "attempted (conn (snd (consume evs e s)))
         = attempted (conn s) @ List.map_filter forward (take k evs)" ..
    with None have "attempted (conn (snd (consume (ev # evs) e s)))
         = attempted (conn s) @ List.map_filter forward (take (Suc k) (ev # evs))"
      by (simp add: List.map_filter_simps)
    then show ?thesis ..
  next
    case (Some out)
    define r where "r = send_personal_message out (conn (account out s))"
    define s2 where "s2 = (account out s)\<lparr>conn := snd r\<rparr>"
    have att: "attempted (conn s2) = attempted (conn s) @ [out]"
      by (simp add: s2_def r_def attempted_send conn_account)
    show ?thesis
    proof (cases "fst r")
      case None
      from Cons.IH[of s2] obtain k where
        "attempted (conn (snd (consume evs e s2)))
           = attempted (conn s2) @ List.map_filter forward (take k evs)" ..
      with None Some att have "attempted (conn (snd (consume (ev # evs) e s)))
           = attempted (conn s) @ List.map_filter forward (take (Suc k) (ev # evs))"
        by (simp add: List.map_filter_simps Let_def split_beta r_def s2_def)
      then show ?thesis ..
    next
      case (Some x)
      with \<open>forward ev = Some out\<close> att
      have "attempted (conn (snd (consume (ev # evs) e s)))
           = attempted (conn s) @ List.map_filter forward (take (Suc 0) (ev # evs))"
        by (simp add: List.map_filter_simps Let_def split_beta r_def s2_def)
      then show ?thesis ..
    qed
  qed
qed

lemma forward_is_mid: "forward ev = Some out \<Longrightarrow> is_mid out"
  by (cases ev) (auto simp: Let_def split: if_splits)

lemma map_filter_forward_mid: "list_all is_mid (List.map_filter forward evs)"
  by (induction evs) (auto simp: List.map_filter_simps forward_is_mid split: option.splits)

lemma fallback_attempted:
  "\<exists>fb. attempted (snd (no_stream_fallback E th s)) = attempted (conn s) @ fb \<and>
        (fb = [] \<or> (\<exists>x. fb = [Token x]))"
  by (auto simp: no_stream_fallback_def Let_def split_beta attempted_send
           split: sum.splits option.splits)

lemma stream_agent_attempted:
  "\<exists>k fb fin.
      attempted (snd (stream_agent E th h c))
        = attempted c @ [Start]
          @ List.map_filter forward (take k (fst (agent_astream_events E th h))) @ fb @ fin \<and>
      (fb = [] \<or> (\<exists>x. fb = [Token x])) \<and>
      (case fst (stream_agent E th h c) of
         Inr answer \<Rightarrow> fin = []
       | Inl again \<Rightarrow> fb = [] \<and> (fin = [] \<or> (\<exists>x. fin = [Error x])))"
proof -
  define r where "r = send_personal_message Start c"
  define evs where "evs = fst (agent_astream_events E th h)"
  define e where "e = snd (agent_astream_events E th h)"
  define s0 where "s0 = \<lparr>full_response = [], tokens_streamed = 0, conn = snd r\<rparr>"
  define res where "res = (case fst r of Some x \<Rightarrow> (RaisesException x, s0) | None \<Rightarrow> consume evs e s0)"
  have start: "attempted (conn s0) = attempted c @ [Start]"
    by (simp add: s0_def r_def attempted_send)
  have "\<exists>k. attempted (conn (snd res)) = attempted (conn s0) @ List.map_filter forward (take k evs)"
  proof (cases "fst r")
    case None
    then show ?thesis using consume_attempted[of evs e s0] by (simp add: res_def)
  next
    case (Some x)
    then have "attempted (conn (snd res)) = attempted (conn s0) @ List.map_filter forward (take 0 evs)"
      by (simp add: res_def List.map_filter_simps)
    then show ?thesis ..
  qed
  then obtain k where k: "attempted (conn (snd res))
      = attempted c @ [Start] @ List.map_filter forward (take k evs)"
    using start by auto
  have unfold: "stream_agent E th h c =
      (case fst res of
         Completed \<Rightarrow> (Inr (fst (no_stream_fallback E th (snd res))), snd (no_stream_fallback E th (snd res)))
       | RaisesDisconnect \<Rightarrow> (Inl False, conn (snd res))
       | RaisesException graph_err \<Rightarrow>
           (Inl (fst (send_personal_message (Error (ai_error_label @ take 100 graph_err)) (conn (snd res))) = None),
            snd (send_personal_message (Error (ai_error_label @ take 100 graph_err)) (conn (snd res)))))"
    by (simp add: stream_agent_def Let_def split_beta res_def s0_def r_def evs_def e_def
             split: option.splits ending.splits)
  show ?thesis
  proof (cases "fst res")
    case Completed
    from fallback_attempted[of E th "snd res"] obtain fb where
      fb: "attempted (snd (no_stream_fallback E th (snd res))) = attempted (conn (snd res)) @ fb"
          "fb = [] \<or> (\<exists>x. fb = [Token x])" by blast
    have "attempted (snd (stream_agent E th h c))
        = attempted c @ [Start] @ List.map_filter forward (take k (fst (agent_astream_events E th h))) @ fb @ [] \<and>
      (fb = [] \<or> (\<exists>x. fb = [Token x])) \<and>
      (case fst (stream_agent E th h c) of
         Inr answer \<Rightarrow> [] = ([]::ws_event list)
       | Inl again \<Rightarrow> fb = [] \<and> (([]::ws_event list) = [] \<or> (\<exists>x. ([]::ws_event list) = [Error x])))"
      using Completed fb k by (simp add: unfold evs_def)
    then show ?thesis by blast
  next
    case RaisesDisconnect
    have "attempted (snd (stream_agent E th h c))
        = attempted c @ [Start] @ List.map_filter forward (take k (fst (agent_astream_events E th h))) @ [] @ [] \<and>
      (([]::ws_event list) = [] \<or> (\<exists>x. ([]::ws_event list) = [Token x])) \<and>
      (case fst (stream_agent E th h c) of
         Inr answer \<Rightarrow> [] = ([]::ws_event list)
       | Inl again \<Rightarrow> ([]::ws_event list) = [] \<and> (([]::ws_event list) = [] \<or> (\<exists>x. ([]::ws_event list) = [Error x])))"
      using RaisesDisconnect k by (simp add: unfold evs_def)
    then show ?thesis by blast
  next
    case (RaisesException g)
    have "attempted (snd (stream_agent E th h c))
        = attempted c @ [Start] @ List.map_filter forward (take k (fst (agent_astream_events E th h))) @ []
          @ [Error (ai_error_label @ take 100 g)] \<and>
      (([]::ws_event list) = [] \<or> (\<exists>x. ([]::ws_event list) = [Token x])) \<and>
      (case fst (stream_agent E th h c) of
         Inr answer \<Rightarrow> [Error (ai_error_label @ take 100 g)] = ([]::ws_event list)
       | Inl again \<Rightarrow> ([]::ws_event list) = [] \<and>
            ([Error (ai_error_label @ take 100 g)] = [] \<or> (\<exists>x. [Error (ai_error_label @ take 100 g)] = [Error x])))"
      using RaisesException k by (simp add: unfold evs_def attempted_send)
    then show ?thesis by blast
  qed
qed

lemma create_conversation_attempted:
  "\<exists>m. attempted (snd (snd (create_conversation E db uid data cid c))) = attempted c @ m \<and>
       (m = [] \<or> (\<exists>i. m = [Meta i]))"
  by (auto simp: create_conversation_def Let_def split_beta attempted_send split: option.splits)

lemma delivered_subseq_attempted: "subseq (delivered c) (attempted c)"
  unfolding delivered_def attempted_def by (rule subseq_map) simp

lemma after_start_mids: "list_all is_mid mids \<Longrightarrow> is_terminal e \<Longrightarrow> after_start (mids @ [e])"
proof (induction mids)
  case Nil
  then show ?case by simp
next
  case (Cons m mids)
  then show ?case by (cases "mids @ [e]") auto
qed

lemma turn_grammar_shape:
  assumes "meta = [] \<or> (\<exists>i. meta = [Meta i])" and "list_all is_mid mids" and "is_terminal e"
  shows "turn_grammar (meta @ [Start] @ mids @ [e])"
  using assms after_start_mids[of mids e] by auto

text \<open>
  C5 (token ordering invariant). In one turn, the events handed to the connection are:
  at most one \<open>meta\<close>; \<open>start\<close>; the status and token events of a prefix of the
  agent's stream, in stream order; at most one fallback token; at most one terminal
  event, \<open>end\<close> or \<open>error\<close>. The events delivered to the client are a subsequence
  of those, hence a subsequence of a word of \<open>meta? start (status|token)* (end|error)\<close>.
\<close>

theorem ws_turn_event_order:
  "let t = ws_turn E db uid cid data \<lparr>sends = [], pending = outs\<rparr>;
       evs = fst (agent_astream_events E (fst (turn_call t)) (snd (turn_call t)))
   in (\<exists>meta k fb fin.
         attempted (turn_conn t)
           = meta @ [Start] @ List.map_filter forward (take k evs) @ fb @ fin \<and>
         (meta = [] \<or> (\<exists>i. meta = [Meta i])) \<and>
         (fb = [] \<or> (\<exists>x. fb = [Token x])) \<and>
         (fin = [] \<or> (\<exists>x. fin = [End x]) \<or> (\<exists>x. fin = [Error x]))) \<and>
      subseq (delivered (turn_conn t)) (attempted (turn_conn t)) \<and>
      (\<exists>w. turn_grammar w \<and> subseq (delivered (turn_conn t)) w)"
proof -
  define c0 where "c0 = \<lparr>sends = [], pending = outs\<rparr>"
  define t where "t = ws_turn E db uid cid data c0"
  define cc where "cc = create_conversation E db uid data cid c0"
  define hist where "hist = ws_history E db cid data"
  define sa where "sa = stream_agent E (fst cc) hist (snd (snd cc))"
  define evs where "evs = fst (agent_astream_events E (fst cc) hist)"
  have call: "turn_call t = (fst cc, hist)"
    by (simp add: t_def ws_turn_def Let_def split_beta cc_def hist_def
             split: sum.splits option.splits)
  obtain meta where meta: "attempted (snd (snd cc)) = meta" "meta = [] \<or> (\<exists>i. meta = [Meta i])"
    using create_conversation_attempted[of E db uid data cid c0]
    by (auto simp: cc_def c0_def attempted_def)
  obtain k fb fin where sa_att: "attempted (snd sa)
        = meta @ [Start] @ List.map_filter forward (take k evs) @ fb @ fin"
      and fb: "fb = [] \<or> (\<exists>x. fb = [Token x])"
      and fin: "case fst sa of Inr answer \<Rightarrow> fin = []
                 | Inl again \<Rightarrow> fb = [] \<and> (fin = [] \<or> (\<exists>x. fin = [Error x]))"
    using stream_agent_attempted[of E "fst cc" hist "snd (snd cc)"] meta(1)
    by (auto simp: sa_def evs_def)
  have shape: "\<exists>fin2. attempted (turn_conn t)
        = meta @ [Start] @ List.map_filter forward (take k evs) @ fb @ fin2 \<and>
        (fin2 = [] \<or> (\<exists>x. fin2 = [End x]) \<or> (\<exists>x. fin2 = [Error x]))"
  proof (cases "fst sa")
    case (Inl again)
    then have "turn_conn t = snd sa"
      by (simp add: t_def ws_turn_def Let_def split_beta cc_def hist_def sa_def)
    with Inl sa_att fin show ?thesis by auto
  next
    case (Inr answer)
    with fin have fin_nil: "fin = []" by simp
    show ?thesis
    proof (cases "log_fault E")
      case None
      with Inr have "turn_conn t = snd (send_personal_message (End answer) (snd sa))"
        by (simp add: t_def ws_turn_def Let_def split_beta cc_def hist_def sa_def
                 split: option.splits)
      then have "attempted (turn_conn t)
          = meta @ [Start] @ List.map_filter forward (take k evs) @ fb @ [End answer]"
        using sa_att fin_nil by (simp add: attempted_send)
      then show ?thesis by blast
    next
      case (Some e)
      with Inr have "turn_conn t = snd sa"
        by (simp add: t_def ws_turn_def Let_def split_beta cc_def hist_def sa_def)
      with sa_att fin_nil show ?thesis by auto
    qed
  qed
  then obtain fin2 where att: "attempted (turn_conn t)
        = meta @ [Start] @ List.map_filter forward (take k evs) @ fb @ fin2"
      and fin2: "fin2 = [] \<or> (\<exists>x. fin2 = [End x]) \<or> (\<exists>x. fin2 = [Error x])"
    by blast
  have sub: "subseq (delivered (turn_conn t)) (attempted (turn_conn t))"
    by (rule delivered_subseq_attempted)
  have mids: "list_all is_mid (List.map_filter forward (take k evs) @ fb)"
    using fb map_filter_forward_mid[of "take k evs"] by auto
  have "\<exists>w. turn_grammar w \<and> subseq (attempted (turn_conn t)) w"
  proof (cases "fin2 = []")
    case True
    have g: "turn_grammar (meta @ [Start] @ (List.map_filter forward (take k evs) @ fb)
                 @ [End (StrContent [])])"
      using meta(2) mids by (intro turn_grammar_shape) simp_all
    have "subseq (attempted (turn_conn t))
            (attempted (turn_conn t) @ [End (StrContent [])])"
      by (rule subseq_rev_drop_many) simp
    with g att True show ?thesis by (intro exI conjI) (assumption, simp)
  next
    case False
    with fin2 obtain e where e: "fin2 = [e]" "is_terminal e" by auto
    have "turn_grammar (meta @ [Start] @ (List.map_filter forward (take k evs) @ fb) @ [e])"
      using meta(2) mids e(2) by (intro turn_grammar_shape) simp_all
    with att e(1) show ?thesis by (intro exI[of _ "attempted (turn_conn t)"]) simp
  qed
  then obtain w where w: "turn_grammar w" "subseq (attempted (turn_conn t)) w" by blast
  from sub w(2) have "subseq (delivered (turn_conn t)) w" by (rule subseq_order.trans)
  with w(1) have gr: "\<exists>w. turn_grammar w \<and> subseq (delivered (turn_conn t)) w" by blast
  have "(\<exists>meta k fb fin.
         attempted (turn_conn t)
           = meta @ [Start] @ List.map_filter forward (take k evs) @ fb @ fin \<and>
         (meta = [] \<or> (\<exists>i. meta = [Meta i])) \<and>
         (fb = [] \<or> (\<exists>x. fb = [Token x])) \<and>
         (fin = [] \<or> (\<exists>x. fin = [End x]) \<or> (\<exists>x. fin = [Error x])))"
    using att meta(2) fb fin2 by blast
  with sub gr have final: "(\<exists>meta k fb fin.
         attempted (turn_conn t)
           = meta @ [Start] @ List.map_filter forward (take k evs) @ fb @ fin \<and>
         (meta = [] \<or> (\<exists>i. meta = [Meta i])) \<and>
         (fb = [] \<or> (\<exists>x. fb = [Token x])) \<and>
         (fin = [] \<or> (\<exists>x. fin = [End x]) \<or> (\<exists>x. fin = [Error x]))) \<and>
      subseq (delivered (turn_conn t)) (attempted (turn_conn t)) \<and>
      (\<exists>w. turn_grammar w \<and> subseq (delivered (turn_conn t)) w)"
    by blast
  have evs': "fst (agent_astream_events E (fst (turn_call t)) (snd (turn_call t))) = evs"
    by (simp add: call evs_def)
  show ?thesis
    unfolding Let_def t_def[unfolded c0_def, symmetric] evs'
    by (rule final)
qed

lemmas ws_eval =
  ws_turn_def ws_history_def create_conversation_def save_user_message_def
  save_assistant_message_def stream_agent_def no_stream_fallback_def
  send_personal_message_def insert_conversation_def insert_rows_def update_timestamp_def
  quiet_env_def alice_db_def Let_def

lemma streaming_turn:
  "sends (turn_conn (ws_turn streaming_env alice_db (asc ''alice'') None (asc ''hello'')
                       \<lparr>sends = [], pending = [Delivered, Dropped]\<rparr>))
     = [(Meta (asc ''c2''), Delivered),
        (Start, Dropped),
        (Status (asc ''Running tool: legal_assistant...''), Delivered),
        (Token (StrContent (asc ''Xin'')), Delivered),
        (Token (StrContent (asc '' chao'')), Delivered),
        (End (StrContent (asc ''Xin chao'')), Delivered)]"
  by (simp add: ws_eval streaming_env_def join_parts_def asc_def)

theorem ws_turn_event_order_witness:
  "delivered (turn_conn (ws_turn streaming_env alice_db (asc ''alice'') None (asc ''hello'')
                           \<lparr>sends = [], pending = [Delivered, Dropped]\<rparr>))
     = [Meta (asc ''c2''),
        Status (asc ''Running tool: legal_assistant...''),
        Token (StrContent (asc ''Xin'')),
        Token (StrContent (asc '' chao'')),
        End (StrContent (asc ''Xin chao''))] \<and>
   (\<exists>w. turn_grammar w \<and>
        subseq (delivered (turn_conn (ws_turn streaming_env alice_db (asc ''alice'') None
                  (asc ''hello'') \<lparr>sends = [], pending = [Delivered, Dropped]\<rparr>))) w)"
proof -
  have d: "delivered (turn_conn (ws_turn streaming_env alice_db (asc ''alice'') None (asc ''hello'')
                           \<lparr>sends = [], pending = [Delivered, Dropped]\<rparr>))
     = [Meta (asc ''c2''),
        Status (asc ''Running tool: legal_assistant...''),
        Token (StrContent (asc ''Xin'')),
        Token (StrContent (asc '' chao'')),
        End (StrContent (asc ''Xin chao''))]"
    unfolding delivered_def streaming_turn by simp
  from ws_turn_event_order[of streaming_env alice_db "asc ''alice''" None "asc ''hello''"
         "[Delivered, Dropped]"]
  have "\<exists>w. turn_grammar w \<and>
        subseq (delivered (turn_conn (ws_turn streaming_env alice_db (asc ''alice'') None
                  (asc ''hello'') \<lparr>sends = [], pending = [Delivered, Dropped]\<rparr>))) w"
    unfolding Let_def by (elim conjE)
  with d show ?thesis by (rule conjI)
qed

lemma send_quiet:
  "pending c = [] \<Longrightarrow>
     send_personal_message ev c = (None, \<lparr>sends = sends c @ [(ev, Delivered)], pending = []\<rparr>)"
  by (simp add: send_personal_message_def)

lemma account_not_token: "\<forall>x. out \<noteq> Token x \<Longrightarrow> account out s = s"
  by (cases out) simp_all

lemma consume_without_tokens:
  assumes "pending (conn s) = []" and "\<forall>ev\<in>set evs. \<forall>x. forward ev \<noteq> Some (Token x)"
  shows "consume evs e s
           = (e, s\<lparr>conn := \<lparr>sends = sends (conn s)
                                 @ map (\<lambda>out. (out, Delivered)) (List.map_filter forward evs),
                              pending = []\<rparr>\<rparr>)"
  using assms
proof (induction evs arbitrary: s)
  case Nil
  then show ?case by (simp add: List.map_filter_simps)
next
  case (Cons ev evs)
  show ?case
  proof (cases "forward ev")
    case None
    with Cons show ?thesis by (simp add: List.map_filter_simps)
  next
    case (Some out)
    with Cons.prems have nt: "\<forall>x. out \<noteq> Token x" by auto
    define s2 where "s2 = s\<lparr>conn := \<lparr>sends = sends (conn s) @ [(out, Delivered)], pending = []\<rparr>\<rparr>"
    have "pending (conn s2) = []" by (simp add: s2_def)
    moreover from Cons.prems have "\<forall>ev\<in>set evs. \<forall>x. forward ev \<noteq> Some (Token x)" by simp
    ultimately have "consume evs e s2
           = (e, s2\<lparr>conn := \<lparr>sends = sends (conn s2)
                                 @ map (\<lambda>out. (out, Delivered)) (List.map_filter forward evs),
                              pending = []\<rparr>\<rparr>)"
      by (rule Cons.IH)
    with Some nt Cons.prems(1) show ?thesis
      by (simp add: List.map_filter_simps account_not_token send_quiet s2_def)
  qed
qed

lemma delivered_all:
  "delivered \<lparr>sends = map (\<lambda>out. (out, Delivered)) xs, pending = p\<rparr> = xs"
  by (simp add: delivered_def comp_def)

lemma create_conversation_quiet:
  "\<exists>meta. snd (snd (create_conversation E db uid data cid \<lparr>sends = [], pending = []\<rparr>))
            = \<lparr>sends = map (\<lambda>out. (out, Delivered)) meta, pending = []\<rparr> \<and>
          (meta = [] \<or> (\<exists>i. meta = [Meta i]))"
proof (cases "\<not> present cid \<and> supabase E \<and> fault E InsertConversation = None
              \<and> assigned_id E \<noteq> None")
  case True
  then obtain i where "assigned_id E = Some i" by auto
  with True have "snd (snd (create_conversation E db uid data cid \<lparr>sends = [], pending = []\<rparr>))
            = \<lparr>sends = map (\<lambda>out. (out, Delivered)) [Meta i], pending = []\<rparr>"
    by (simp add: create_conversation_def send_quiet Let_def)
  then show ?thesis by blast
next
  case False
  then have "snd (snd (create_conversation E db uid data cid \<lparr>sends = [], pending = []\<rparr>))
            = \<lparr>sends = map (\<lambda>out. (out, Delivered)) [], pending = []\<rparr>"
    by (auto simp: create_conversation_def Let_def split: option.splits)
  then show ?thesis by blast
qed

text \<open>
  C6 (no-stream fallback). When the stream completes without a single token event,
  the final state's last message has non-empty content, the log can be written and the
  transport delivers, the client receives that content as one \<open>token\<close> immediately
  before \<open>end\<close>, and \<open>end\<close> carries the same content.
\<close>

theorem ws_turn_no_stream_fallback:
  assumes "\<forall>th h. agent_astream_events E th h = (evs, Completed)"
      and "\<forall>ev\<in>set evs. \<forall>x. forward ev \<noteq> Some (Token x)"
      and "\<forall>th. agent_aget_state E th = Inr (Some msgs)"
      and "msgs \<noteq> []" and "truthy (msg_content (last msgs))"
      and "log_fault E = None"
  shows "\<exists>meta. (meta = [] \<or> (\<exists>i. meta = [Meta i])) \<and>
           delivered (turn_conn (ws_turn E db uid cid data \<lparr>sends = [], pending = []\<rparr>))
             = meta @ [Start] @ List.map_filter forward evs
               @ [Token (msg_content (last msgs)), End (msg_content (last msgs))] \<and>
           goes_on (ws_turn E db uid cid data \<lparr>sends = [], pending = []\<rparr>)"
proof -
  define c0 :: connection where "c0 = \<lparr>sends = [], pending = []\<rparr>"
  define cc where "cc = create_conversation E db uid data cid c0"
  define hist where "hist = ws_history E db cid data"
  define x where "x = msg_content (last msgs)"
  obtain meta where c1: "snd (snd cc) = \<lparr>sends = map (\<lambda>out. (out, Delivered)) meta, pending = []\<rparr>"
      and meta: "meta = [] \<or> (\<exists>i. meta = [Meta i])"
    using create_conversation_quiet[of E db uid data cid] unfolding cc_def c0_def by blast
  define c2 :: connection where
    "c2 = \<lparr>sends = map (\<lambda>out. (out, Delivered)) (meta @ [Start] @ List.map_filter forward evs),
           pending = []\<rparr>"
  have cons: "consume evs Completed \<lparr>full_response = [], tokens_streamed = 0,
                 conn = \<lparr>sends = map (\<lambda>out. (out, Delivered)) meta @ [(Start, Delivered)], pending = []\<rparr>\<rparr>
        = (Completed, \<lparr>full_response = [], tokens_streamed = 0, conn = c2\<rparr>)"
    using consume_without_tokens[OF _ assms(2), of
        "\<lparr>full_response = [], tokens_streamed = 0,
          conn = \<lparr>sends = map (\<lambda>out. (out, Delivered)) meta @ [(Start, Delivered)], pending = []\<rparr>\<rparr>"
        Completed]
    by (simp add: c2_def)
  have fb: "no_stream_fallback E (fst cc) \<lparr>full_response = [], tokens_streamed = 0, conn = c2\<rparr>
        = (x, \<lparr>sends = sends c2 @ [(Token x, Delivered)], pending = []\<rparr>)"
    using assms(3,4,5) by (simp add: no_stream_fallback_def send_quiet c2_def x_def Let_def)
  have sa: "stream_agent E (fst cc) hist (snd (snd cc))
        = (Inr x, \<lparr>sends = sends c2 @ [(Token x, Delivered)], pending = []\<rparr>)"
    using assms(1) by (simp add: stream_agent_def c1 send_quiet cons fb)
  have t: "turn_conn (ws_turn E db uid cid data c0)
        = \<lparr>sends = sends c2 @ [(Token x, Delivered), (End x, Delivered)], pending = []\<rparr> \<and>
      goes_on (ws_turn E db uid cid data c0)"
    using assms(6)
    by (simp add: ws_turn_def Let_def split_beta cc_def[symmetric] hist_def[symmetric] sa send_quiet)
  then have "delivered (turn_conn (ws_turn E db uid cid data c0))
        = meta @ [Start] @ List.map_filter forward evs @ [Token x, End x]"
    by (simp add: c2_def delivered_def comp_def)
  with t meta show ?thesis unfolding c0_def x_def by blast
qed

lemma silent_turn:
  "sends (turn_conn (ws_turn silent_env alice_db (asc ''alice'') (Some (asc ''c1'')) (asc ''hello'')
                       \<lparr>sends = [], pending = []\<rparr>))
     = [(Start, Delivered),
        (Status (asc ''Running tool: legal_assistant...''), Delivered),
        (Token (StrContent (asc ''answer'')), Delivered),
        (End (StrContent (asc ''answer'')), Delivered)]"
  by (simp add: ws_eval silent_env_def fetch_messages_def asc_def)

theorem ws_turn_no_stream_fallback_witness:
  "delivered (turn_conn (ws_turn silent_env alice_db (asc ''alice'') (Some (asc ''c1''))
                           (asc ''hello'') \<lparr>sends = [], pending = []\<rparr>))
     = [Start, Status (asc ''Running tool: legal_assistant...''),
        Token (StrContent (asc ''answer'')), End (StrContent (asc ''answer''))] \<and>
   goes_on (ws_turn silent_env alice_db (asc ''alice'') (Some (asc ''c1''))
              (asc ''hello'') \<lparr>sends = [], pending = []\<rparr>)"
proof -
  have 1: "\<forall>th h. agent_astream_events silent_env th h
             = ([OnToolStart (asc ''legal_assistant''), OnToolEnd (asc ''legal_assistant'')], Completed)"
    by (simp add: silent_env_def)
  have 2: "\<forall>ev\<in>set [OnToolStart (asc ''legal_assistant''), OnToolEnd (asc ''legal_assistant'')].
             \<forall>x. forward ev \<noteq> Some (Token x)"
    by simp
  have 3: "\<forall>th. agent_aget_state silent_env th = Inr (Some [AIMessage (StrContent (asc ''answer'')) []])"
    by (simp add: silent_env_def quiet_env_def)
  have 4: "[AIMessage (StrContent (asc ''answer'')) []] \<noteq> []" by simp
  have 5: "truthy (msg_content (last [AIMessage (StrContent (asc ''answer'')) []]))"
    by (simp add: asc_def)
  have 6: "log_fault silent_env = None" by (simp add: silent_env_def quiet_env_def)
  from ws_turn_no_stream_fallback[OF 1 2 3 4 5 6, of alice_db "asc ''alice''" "Some (asc ''c1'')"
         "asc ''hello''"]
  have g: "goes_on (ws_turn silent_env alice_db (asc ''alice'') (Some (asc ''c1''))
              (asc ''hello'') \<lparr>sends = [], pending = []\<rparr>)"
    by blast
  have d: "delivered (turn_conn (ws_turn silent_env alice_db (asc ''alice'') (Some (asc ''c1''))
                           (asc ''hello'') \<lparr>sends = [], pending = []\<rparr>))
     = [Start, Status (asc ''Running tool: legal_assistant...''),
        Token (StrContent (asc ''answer'')), End (StrContent (asc ''answer''))]"
    unfolding delivered_def silent_turn by simp
  from d g show ?thesis by (rule conjI)
qed

end
